theory Spec2Isabelle
  imports Main "HOL-Library.AList" "HOL-Library.Word"
begin

section \<open>Values, errors and the outside world\<close>

text \<open>
  The module \<^verbatim>\<open>src/service.ts\<close> is a class of static asynchronous functions.  Each
  one is embedded as a function from the state of the world before the call to the
  outcome of the call and the state after it.  An outcome is a sum: \<open>Inl\<close> is a thrown
  error (a rejected promise), \<open>Inr\<close> the returned value.  A JavaScript object used as
  a dictionary is an association list of its own properties in insertion order, read
  with \<open>map_of\<close> and written with \<open>assign\<close> below.  Properties inherited from the
  prototype (\<^verbatim>\<open>constructor\<close>, \<^verbatim>\<open>toString\<close> and the like) are not part of the list;
  the two names this file reads from such an object, \<^verbatim>\<open>"a.wasm"\<close> and
  \<^verbatim>\<open>"wasm_bindgen.js"\<close>, are not among them.  JavaScript enumerates the names that
  are array indices before the others; the lists keep the order of insertion, and no
  function of this file depends on the order.
\<close>

text \<open>
  \<^verbatim>\<open>new Error(message)\<close> is \<open>Error message\<close>.  A failure that is raised outside of
  this file (a rejected network call, an exception of an engine, a \<^verbatim>\<open>TypeError\<close> of
  the runtime) is \<open>Failure\<close>.
\<close>

datatype error = Error string | Failure string

text \<open>File content and compiler output: \<^verbatim>\<open>string | ArrayBuffer\<close>.\<close>

datatype FileData = Text string | Binary "8 word list"

text \<open>
  The truth value JavaScript gives to a content in \<^verbatim>\<open>if (content)\<close>: the empty string
  is false, every other string and every \<^verbatim>\<open>ArrayBuffer\<close> object is true.  An absent
  (\<^verbatim>\<open>undefined\<close> or \<^verbatim>\<open>null\<close>) content is \<open>None\<close> and false.
\<close>

fun truthy :: "FileData option \<Rightarrow> bool" where
  "truthy None = False"
| "truthy (Some (Text s)) = (s \<noteq> [])"
| "truthy (Some (Binary b)) = True"

text \<open>
  The assignment \<^verbatim>\<open>obj[name] = value\<close> on an object that was created as \<^verbatim>\<open>{}\<close>.
  The name \<^verbatim>\<open>"__proto__"\<close> is the accessor of \<^verbatim>\<open>Object.prototype\<close>: assigning to it
  creates no property of the object.  Every other name becomes a property of the
  object: a new name goes to the end, an old name keeps its place.
\<close>

definition assign :: "string \<Rightarrow> 'v \<Rightarrow> (string \<times> 'v) list \<Rightarrow> (string \<times> 'v) list" where
  "assign name v obj = (if name = ''__proto__'' then obj else AList.update name v obj)"

text \<open>
  Modelled from the spec: the declarations of the string enums \<^verbatim>\<open>Language\<close>
  (\<^verbatim>\<open>./compilerServices\<close>) and \<^verbatim>\<open>FileType\<close> (\<^verbatim>\<open>./model\<close>) are not part of the
  sources.  The build sample of the README passes the strings \<^verbatim>\<open>"cpp"\<close>, \<^verbatim>\<open>"wasm"\<close>
  and \<^verbatim>\<open>"javascript"\<close> for them.
\<close>

type_synonym Language = string
type_synonym FileType = string

definition Language_Wasm :: Language where
  "Language_Wasm = ''wasm''"

definition FileType_Wat :: FileType where
  "FileType_Wat = ''wat''"

definition FileType_Wasm :: FileType where
  "FileType_Wasm = ''wasm''"

definition FileType_JavaScript :: FileType where
  "FileType_JavaScript = ''javascript''"

subsection \<open>The compiler service\<close>

text \<open>
  The request envelope built by \<^verbatim>\<open>compileFiles\<close>, and the answer of the backend
  (\<^verbatim>\<open>success\<close>, \<^verbatim>\<open>console\<close>, \<^verbatim>\<open>items\<close>, each item with an optional
  \<^verbatim>\<open>content\<close>).
\<close>

record ServiceInput =
  files :: "(string \<times> FileData option) list"
  options :: string

record ServiceOutput =
  success :: bool
  console :: string
  items :: "(string \<times> FileData option) list"

text \<open>A compiler service is its \<^verbatim>\<open>compile\<close> method.\<close>

datatype CompilerService = CompilerService (compile: "ServiceInput \<Rightarrow> error + ServiceOutput")

subsection \<open>Project files\<close>

text \<open>
  Modelled from the spec: the classes \<^verbatim>\<open>File\<close>, \<^verbatim>\<open>Directory\<close> and \<^verbatim>\<open>Project\<close>
  (\<^verbatim>\<open>./model\<close>) are not part of the sources.  The spec describes a file as a name,
  a type tag, a content and an optional description, and a directory as a name and an
  ordered collection of children.  A file object lives in the store at an address; its
  parent is the address of a directory object.
\<close>

record File =
  fname :: string
  ftype :: "FileType option"
  fdescription :: "string option"
  fdata :: "FileData option"
  fparent :: "nat option"

record Directory =
  dname :: string
  dchildren :: "nat list"

subsection \<open>Engines\<close>

text \<open>
  The engines (\<^verbatim>\<open>wabt\<close>, \<^verbatim>\<open>Binaryen\<close>, \<^verbatim>\<open>showdown\<close>) are objects obtained by
  evaluating fetched code.  An engine object is what it answers to the calls this file
  makes on it; a call that the object does not support answers with a failure.
  \<^item> \<open>readWasm\<close>: \<^verbatim>\<open>readWasm(buffer, {readDebugNames: true})\<close>, then
    \<^verbatim>\<open>generateNames()\<close>, \<^verbatim>\<open>applyNames()\<close> and
    \<^verbatim>\<open>toText({foldExprs: false, inlineExport: true})\<close> on the module;
  \<^item> \<open>parseWat\<close>: \<^verbatim>\<open>parseWat("test.wat", wat)\<close>, then \<^verbatim>\<open>resolveNames()\<close>,
    \<^verbatim>\<open>validate()\<close> and \<^verbatim>\<open>toBinary({log: true, write_debug_names: true}).buffer\<close>;
  \<^item> \<open>readBinary\<close>: \<^verbatim>\<open>Binaryen.readBinary(data)\<close>, a module with \<^verbatim>\<open>emitText()\<close>
    and \<^verbatim>\<open>emitAsmjs()\<close>;
  \<^item> \<open>makeHtml\<close>: \<^verbatim>\<open>new showdown.Converter({tables: true})\<close>,
    \<^verbatim>\<open>showdown.setFlavor("github")\<close> and \<^verbatim>\<open>converter.makeHtml(src)\<close>.
\<close>

record BinaryenModule =
  emitText :: "error + string"
  emitAsmjs :: "error + string"

record engine =
  readWasm :: "FileData option \<Rightarrow> error + string"
  parseWat :: "FileData option \<Rightarrow> error + FileData"
  readBinary :: "FileData option \<Rightarrow> error + BinaryenModule"
  makeHtml :: "string \<Rightarrow> error + string"

subsection \<open>The environment and the world\<close>

text \<open>
  What the collaborators outside of this file answer:
  \<^item> \<open>createCompilerService\<close>: \<^verbatim>\<open>createCompilerService(from, to)\<close> of
    \<^verbatim>\<open>./compilerServices\<close>, a service or an error;
  \<^item> \<open>getPath\<close>: \<^verbatim>\<open>File.getPath()\<close> of \<^verbatim>\<open>./model\<close>;
  \<^item> \<open>fetch\<close>: the text of the response to \<^verbatim>\<open>fetch(url)\<close>, or the rejection;
  \<^item> \<open>latency\<close>: the time at which the response to \<^verbatim>\<open>fetch(url)\<close> arrives;
  \<^item> \<open>evalCode\<close>: the array returned by \<^verbatim>\<open>new Function(code)()\<close>, an entry
    \<open>None\<close> being \<^verbatim>\<open>undefined\<close>, or the exception it throws.
\<close>

record env =
  createCompilerService :: "Language \<Rightarrow> Language \<Rightarrow> error + CompilerService"
  getPath :: "File \<Rightarrow> string"
  fetch :: "string \<Rightarrow> error + string"
  latency :: "string \<Rightarrow> nat"
  evalCode :: "string \<Rightarrow> error + engine option list"

text \<open>
  Every call to a collaborator outside of this file is recorded, in the order it is
  made: asking for a compiler service, sending it a request, fetching a resource and
  evaluating fetched code.
\<close>

datatype event =
    CreateService Language Language
  | Compile ServiceInput
  | Fetch string
  | Evaluate string

text \<open>
  The world: the calls made so far, the global namespace (\<^verbatim>\<open>typeof X === "undefined"\<close>
  is \<open>globals w X = None\<close>) and the store of file and directory objects.
\<close>

record world =
  trace :: "event list"
  globals :: "string \<Rightarrow> engine option"
  file_objects :: "File list"
  directory_objects :: "Directory list"

definition emit :: "event \<Rightarrow> world \<Rightarrow> world" where
  "emit e w = w\<lparr>trace := trace w @ [e]\<rparr>"

section \<open>Compilation\<close>

text \<open>
  \<^verbatim>\<open>const input = { files: files.reduce(...), options }\<close>: one entry per path, a later
  file with the same path replacing the content of an earlier one.
\<close>

definition compile_input :: "env \<Rightarrow> File list \<Rightarrow> string \<Rightarrow> ServiceInput" where
  "compile_input E fs opts =
     \<lparr>files = fold (\<lambda>f acc. assign (getPath E f) (fdata f) acc) fs [],
      options = opts\<rparr>"

text \<open>
  The loop over \<^verbatim>\<open>Object.entries(result.items)\<close>:
  \<^verbatim>\<open>if (content) { outputFiles[name] = content; }\<close>.
\<close>

fun outputFiles :: "(string \<times> FileData option) list \<Rightarrow> (string \<times> FileData) list
    \<Rightarrow> (string \<times> FileData) list" where
  "outputFiles [] acc = acc"
| "outputFiles ((name, content) # rest) acc =
     (case content of
        Some c \<Rightarrow> if truthy content then outputFiles rest (assign name c acc)
                  else outputFiles rest acc
      | None \<Rightarrow> outputFiles rest acc)"

definition compileFiles ::
  "env \<Rightarrow> File list \<Rightarrow> Language \<Rightarrow> Language \<Rightarrow> string \<Rightarrow> world
    \<Rightarrow> (error + (string \<times> FileData) list) \<times> world" where
  "compileFiles E fs from to opts w =
     (let w1 = emit (CreateService from to) w in
      (case createCompilerService E from to of
        Inl e \<Rightarrow> (Inl e, w1)
      | Inr service \<Rightarrow>
          (let input = compile_input E fs opts;
               w2 = emit (Compile input) w1
           in (case compile service input of
                 Inl e \<Rightarrow> (Inl e, w2)
               | Inr result \<Rightarrow>
                   if \<not> success result then (Inl (Error (console result)), w2)
                   else (Inr (outputFiles (items result) []), w2)))))"

text \<open>The object returned by \<^verbatim>\<open>compileFileWithBindings\<close>.\<close>

record Bindings =
  wasm :: "FileData option"
  wasmBindgenJs :: "FileData option"

definition compileFileWithBindings ::
  "env \<Rightarrow> File \<Rightarrow> Language \<Rightarrow> Language \<Rightarrow> string \<Rightarrow> world \<Rightarrow> (error + Bindings) \<times> world" where
  "compileFileWithBindings E file from to opts w =
     (if to \<noteq> Language_Wasm
      then (Inl (Error (''Only wasm target is supported, but \"'' @ to @ ''\" was found'')), w)
      else case compileFiles E [file] from to opts w of
             (Inl e, w') \<Rightarrow> (Inl e, w')
           | (Inr result, w') \<Rightarrow>
               (let expectedOutputFilename = ''a.wasm'';
                    output = \<lparr>wasm = map_of result expectedOutputFilename, wasmBindgenJs = None\<rparr>;
                    expectedWasmBindgenJsFilename = ''wasm_bindgen.js''
                in if truthy (map_of result expectedWasmBindgenJsFilename)
                   then (Inr (output\<lparr>wasmBindgenJs := map_of result expectedWasmBindgenJsFilename\<rparr>), w')
                   else (Inr output, w')))"

definition compileFile ::
  "env \<Rightarrow> File \<Rightarrow> Language \<Rightarrow> Language \<Rightarrow> string \<Rightarrow> world
    \<Rightarrow> (error + FileData option) \<times> world" where
  "compileFile E file from to opts w =
     (case compileFileWithBindings E file from to opts w of
        (Inl e, w') \<Rightarrow> (Inl e, w')
      | (Inr result, w') \<Rightarrow> (Inr (wasm result), w'))"

section \<open>Loading engines on demand\<close>

definition baseUrl :: string where
  "baseUrl = ''https://webassembly.studio/''"

text \<open>The \<^verbatim>\<open>switch (uri)\<close> of \<^verbatim>\<open>lazyLoad\<close>; \<open>None\<close> is the \<^verbatim>\<open>default\<close> branch.\<close>

definition lazyLoad_exports :: "string \<Rightarrow> string list option" where
  "lazyLoad_exports uri =
     (if uri = ''lib/libwabt.js'' then Some [''wabt'']
      else if uri = ''lib/showdown.min.js'' then Some [''showdown'']
      else if uri = ''lib/binaryen.js'' then Some [''Binaryen'']
      else None)"

text \<open>\<^verbatim>\<open>exports.join(',')\<close>.\<close>

fun join :: "string list \<Rightarrow> string \<Rightarrow> string" where
  "join [] sep = []"
| "join [x] sep = x"
| "join (x # y # xs) sep = x @ sep @ join (y # xs) sep"

text \<open>Reading an array at an index: \<^verbatim>\<open>undefined\<close> past its end.\<close>

definition at_index :: "'a option list \<Rightarrow> nat \<Rightarrow> 'a option" where
  "at_index xs i = (if i < length xs then xs ! i else None)"

text \<open>\<^verbatim>\<open>exports.forEach((e, i) => global[e] = exportsObjs[i])\<close>.\<close>

definition bind_exports ::
  "string list \<Rightarrow> engine option list \<Rightarrow> (string \<Rightarrow> engine option) \<Rightarrow> (string \<Rightarrow> engine option)" where
  "bind_exports exports exportsObjs g =
     fold (\<lambda>(i, e) g. g(e := at_index exportsObjs i)) (List.enumerate 0 exports) g"

definition lazyLoad :: "env \<Rightarrow> string \<Rightarrow> world \<Rightarrow> (error + unit) \<times> world" where
  "lazyLoad E uri w =
     (case lazyLoad_exports uri of
        None \<Rightarrow> (Inl (Error (''Unknow lazyLoad uri: '' @ uri)), w)
      | Some exports \<Rightarrow>
          (let w1 = emit (Fetch (baseUrl @ uri)) w in
           (case fetch E (baseUrl @ uri) of
              Inl e \<Rightarrow> (Inl e, w1)
            | Inr res \<Rightarrow>
                (let code = res @ [CHR 0x0A] @ ''return ['' @ join exports '','' @ ''];'';
                     w2 = emit (Evaluate code) w1
                 in (case evalCode E code of
                       Inl e \<Rightarrow> (Inl e, w2)
                     | Inr exportsObjs \<Rightarrow>
                         (Inr (),
                          w2\<lparr>globals := bind_exports exports exportsObjs (globals w2)\<rparr>))))))"

text \<open>
  The guard that opens every post-processor:
  \<^verbatim>\<open>if (typeof X === "undefined") { await Service.lazyLoad(uri); }\<close>.
\<close>

definition load_if_undefined :: "env \<Rightarrow> string \<Rightarrow> string \<Rightarrow> world \<Rightarrow> (error + unit) \<times> world" where
  "load_if_undefined E X uri w =
     (case globals w X of
        None \<Rightarrow> lazyLoad E uri w
      | Some _ \<Rightarrow> (Inr (), w))"

text \<open>
  Reading the property \<open>prop\<close> of the global \<^verbatim>\<open>X\<close> after the guard.  The global
  can be undefined only after a load that bound it to \<^verbatim>\<open>undefined\<close>; reading a
  property of \<^verbatim>\<open>undefined\<close> throws a \<^verbatim>\<open>TypeError\<close>.
\<close>

definition the_global :: "string \<Rightarrow> string \<Rightarrow> world \<Rightarrow> error + engine" where
  "the_global X prop w =
     (case globals w X of
        None \<Rightarrow>
          Inl (Failure (''TypeError: Cannot read properties of undefined (reading '' @
                        [CHR 0x27] @ prop @ [CHR 0x27] @ '')''))
      | Some g \<Rightarrow> Inr g)"

section \<open>Post-processors\<close>

definition disassembleWasm :: "env \<Rightarrow> FileData option \<Rightarrow> world \<Rightarrow> (error + string) \<times> world" where
  "disassembleWasm E buffer w =
     (case load_if_undefined E ''wabt'' ''lib/libwabt.js'' w of
        (Inl e, w') \<Rightarrow> (Inl e, w')
      | (Inr _, w') \<Rightarrow>
          (case the_global ''wabt'' ''readWasm'' w' of
             Inl e \<Rightarrow> (Inl e, w')
           | Inr wabt \<Rightarrow> (readWasm wabt buffer, w')))"

definition assembleWat :: "env \<Rightarrow> FileData option \<Rightarrow> world \<Rightarrow> (error + FileData) \<times> world" where
  "assembleWat E wat w =
     (case load_if_undefined E ''wabt'' ''lib/libwabt.js'' w of
        (Inl e, w') \<Rightarrow> (Inl e, w')
      | (Inr _, w') \<Rightarrow>
          (case the_global ''wabt'' ''parseWat'' w' of
             Inl e \<Rightarrow> (Inl e, w')
           | Inr wabt \<Rightarrow> (parseWat wabt wat, w')))"

definition compileMarkdownToHtml :: "env \<Rightarrow> string \<Rightarrow> world \<Rightarrow> (error + string) \<times> world" where
  "compileMarkdownToHtml E src w =
     (case load_if_undefined E ''showdown'' ''lib/showdown.min.js'' w of
        (Inl e, w') \<Rightarrow> (Inl e, w')
      | (Inr _, w') \<Rightarrow>
          (case the_global ''showdown'' ''Converter'' w' of
             Inl e \<Rightarrow> (Inl e, w')
           | Inr showdown \<Rightarrow> (makeHtml showdown src, w')))"

subsection \<open>File objects\<close>

text \<open>
  Modelled from the spec: the methods of \<^verbatim>\<open>File\<close> and \<^verbatim>\<open>Directory\<close>
  (\<^verbatim>\<open>./model\<close>) are not part of the sources.  Following the spec, \<^verbatim>\<open>newFile\<close>
  creates a new file object under the directory, \<^verbatim>\<open>setData\<close> writes the content of
  one file object and \<^verbatim>\<open>getData\<close> reads it.  An address that holds no object is a
  failure.
\<close>

definition get_file :: "world \<Rightarrow> nat \<Rightarrow> error + File" where
  "get_file w a =
     (if a < length (file_objects w) then Inr (file_objects w ! a)
      else Inl (Failure ''no such file object''))"

definition newFile :: "nat \<Rightarrow> string \<Rightarrow> FileType \<Rightarrow> world \<Rightarrow> (error + nat) \<times> world" where
  "newFile d path t w =
     (if d < length (directory_objects w)
      then let a = length (file_objects w);
               dir = directory_objects w ! d
           in (Inr a,
               w\<lparr>file_objects := file_objects w @
                    [\<lparr>fname = path, ftype = Some t, fdescription = None, fdata = None,
                      fparent = Some d\<rparr>],
                 directory_objects :=
                    (directory_objects w)[d := dir\<lparr>dchildren := dchildren dir @ [a]\<rparr>]\<rparr>)
      else (Inl (Failure ''no such directory object''), w))"

definition set_description :: "nat \<Rightarrow> string \<Rightarrow> world \<Rightarrow> world" where
  "set_description a s w =
     (if a < length (file_objects w)
      then w\<lparr>file_objects := (file_objects w)[a := (file_objects w ! a)\<lparr>fdescription := Some s\<rparr>]\<rparr>
      else w)"

definition setData :: "nat \<Rightarrow> FileData \<Rightarrow> world \<Rightarrow> world" where
  "setData a d w =
     (if a < length (file_objects w)
      then w\<lparr>file_objects := (file_objects w)[a := (file_objects w ! a)\<lparr>fdata := Some d\<rparr>]\<rparr>
      else w)"

text \<open>
  The two lines that create the output file of a post-processor:
  \<^verbatim>\<open>const output = file.parent.newFile(file.name + suffix, type);\<close>
  \<^verbatim>\<open>output.description = description;\<close>
  A file without a parent makes \<^verbatim>\<open>file.parent.newFile\<close> throw.
\<close>

definition new_output ::
  "File \<Rightarrow> string \<Rightarrow> FileType \<Rightarrow> string \<Rightarrow> world \<Rightarrow> (error + nat) \<times> world" where
  "new_output file suffix t description w =
     (case fparent file of
        None \<Rightarrow> (Inl (Failure ''TypeError: Cannot read properties of null (reading newFile)''), w)
      | Some d \<Rightarrow>
          (case newFile d (fname file @ suffix) t w of
             (Inl e, w') \<Rightarrow> (Inl e, w')
           | (Inr output, w') \<Rightarrow> (Inr output, set_description output description w')))"

text \<open>
  The three lines that close a post-processor whose result is already computed: the
  two lines above, then \<^verbatim>\<open>output.setData(result);\<close>.
\<close>

definition write_output ::
  "File \<Rightarrow> string \<Rightarrow> FileType \<Rightarrow> string \<Rightarrow> FileData \<Rightarrow> world \<Rightarrow> (error + unit) \<times> world" where
  "write_output file suffix t description result w =
     (case new_output file suffix t description w of
        (Inl e, w') \<Rightarrow> (Inl e, w')
      | (Inr output, w') \<Rightarrow> (Inr (), setData output result w'))"

definition disassembleWasmWithWabt :: "env \<Rightarrow> nat \<Rightarrow> world \<Rightarrow> (error + unit) \<times> world" where
  "disassembleWasmWithWabt E a w =
     (case get_file w a of
        Inl e \<Rightarrow> (Inl e, w)
      | Inr file \<Rightarrow>
          (case disassembleWasm E (fdata file) w of
             (Inl e, w') \<Rightarrow> (Inl e, w')
           | (Inr result, w') \<Rightarrow>
               write_output file ''.wat'' FileType_Wat
                 (''Disassembled from '' @ fname file @ '' using Wabt.'') (Text result) w'))"

definition assembleWatWithWabt :: "env \<Rightarrow> nat \<Rightarrow> world \<Rightarrow> (error + unit) \<times> world" where
  "assembleWatWithWabt E a w =
     (case get_file w a of
        Inl e \<Rightarrow> (Inl e, w)
      | Inr file \<Rightarrow>
          (case assembleWat E (fdata file) w of
             (Inl e, w') \<Rightarrow> (Inl e, w')
           | (Inr result, w') \<Rightarrow>
               write_output file ''.wasm'' FileType_Wasm
                 (''Assembled from '' @ fname file @ '' using Wabt.'') result w'))"

text \<open>
  Here the output file is created and described before the module is printed:
  \<^verbatim>\<open>output.setData(module.emitText())\<close> is the last line.  When \<^verbatim>\<open>emitText\<close> throws,
  the new file stays, without content.
\<close>

definition disassembleWasmWithBinaryen :: "env \<Rightarrow> nat \<Rightarrow> world \<Rightarrow> (error + unit) \<times> world" where
  "disassembleWasmWithBinaryen E a w =
     (case load_if_undefined E ''Binaryen'' ''lib/binaryen.js'' w of
        (Inl e, w') \<Rightarrow> (Inl e, w')
      | (Inr _, w') \<Rightarrow>
          (case get_file w' a of
             Inl e \<Rightarrow> (Inl e, w')
           | Inr file \<Rightarrow>
               (case the_global ''Binaryen'' ''readBinary'' w' of
                  Inl e \<Rightarrow> (Inl e, w')
                | Inr binaryen \<Rightarrow>
                    (case readBinary binaryen (fdata file) of
                       Inl e \<Rightarrow> (Inl e, w')
                     | Inr module \<Rightarrow>
                         (case new_output file ''.wat'' FileType_Wat
                                 (''Disassembled from '' @ fname file @ '' using Binaryen.'') w' of
                            (Inl e, w'') \<Rightarrow> (Inl e, w'')
                          | (Inr output, w'') \<Rightarrow>
                              (case emitText module of
                                 Inl e \<Rightarrow> (Inl e, w'')
                               | Inr result \<Rightarrow> (Inr (), setData output (Text result) w'')))))))"

definition convertWasmToAsmWithBinaryen :: "env \<Rightarrow> nat \<Rightarrow> world \<Rightarrow> (error + unit) \<times> world" where
  "convertWasmToAsmWithBinaryen E a w =
     (case load_if_undefined E ''Binaryen'' ''lib/binaryen.js'' w of
        (Inl e, w') \<Rightarrow> (Inl e, w')
      | (Inr _, w') \<Rightarrow>
          (case get_file w' a of
             Inl e \<Rightarrow> (Inl e, w')
           | Inr file \<Rightarrow>
               (case the_global ''Binaryen'' ''readBinary'' w' of
                  Inl e \<Rightarrow> (Inl e, w')
                | Inr binaryen \<Rightarrow>
                    (case readBinary binaryen (fdata file) of
                       Inl e \<Rightarrow> (Inl e, w')
                     | Inr module \<Rightarrow>
                         (case emitAsmjs module of
                            Inl e \<Rightarrow> (Inl e, w')
                          | Inr result \<Rightarrow>
                              write_output file ''.asm.js'' FileType_JavaScript
                                (''Converted from '' @ fname file @ '' using Binaryen.'')
                                (Text result) w')))))"

section \<open>Loading a project\<close>

text \<open>
  A node of the project description (\<^verbatim>\<open>interface IFile\<close>).  The field
  \<^verbatim>\<open>children\<close> is \<open>None\<close> when the node has none; \<^verbatim>\<open>data\<close> is absent, the
  literal \<^verbatim>\<open>null\<close>, or a string.
\<close>

datatype json_data = Absent | Null | Str string

datatype IFile = IFile
  (name: string)
  (children: "IFile list option")
  (type: "FileType option")
  (data: json_data)
  (description: "string option")

text \<open>
  The objects built by the deserializer are new and referenced by nothing else before
  they are returned, so they are values: a file with its name, type, description and
  content, or a directory with its name and its children in the order they were added.
\<close>

datatype node =
    FileNode string "FileType option" "string option" "FileData option"
  | DirectoryNode string "node list"

text \<open>
  Modelled from the spec: \<^verbatim>\<open>addFile\<close> of \<^verbatim>\<open>Directory\<close> and \<^verbatim>\<open>Project\<close>
  (\<^verbatim>\<open>./model\<close>) is not part of the sources; the children of a directory are an
  ordered collection, and a file that is added comes last.
\<close>

definition addFile :: "node list \<Rightarrow> node \<Rightarrow> node list" where
  "addFile fs f = fs @ [f]"

text \<open>
  The run of an asynchronous function: the requests it sends before it first waits,
  the time at which its promise settles, and how it settles.
\<close>

record 'a async =
  requests :: "string list"
  settled_at :: nat
  outcome :: "error + 'a"

text \<open>
  \<^verbatim>\<open>Promise.all(promises)\<close>.  The promises settle in the order of their times (the
  earlier index first among equal times).  The first one that rejects rejects the
  whole; otherwise each value is stored at the index of its promise, whenever it
  arrives, and the array of values is read in the order of the indices.
\<close>

definition completion_order :: "'a async list \<Rightarrow> (nat \<times> 'a async) list" where
  "completion_order ps = sort_key (\<lambda>(i, p). settled_at p) (List.enumerate 0 ps)"

definition Promise_all :: "'a async list \<Rightarrow> 'a list async" where
  "Promise_all ps =
     (let settled = completion_order ps;
          rejected = concat (map (\<lambda>(i, p). case outcome p of Inl e \<Rightarrow> [(settled_at p, e)]
                                                            | Inr v \<Rightarrow> []) settled);
          fulfilled = concat (map (\<lambda>(i, p). case outcome p of Inl e \<Rightarrow> []
                                                             | Inr v \<Rightarrow> [(i, v)]) settled)
      in case rejected of
           [] \<Rightarrow> \<lparr>requests = concat (map requests ps),
                  settled_at = fold max (map settled_at ps) 0,
                  outcome = Inr (map snd (sort_key fst fulfilled))\<rparr>
         | (t, e) # _ \<Rightarrow> \<lparr>requests = concat (map requests ps),
                           settled_at = t,
                           outcome = Inl e\<rparr>)"

text \<open>
  The three branches that set the content of a file, in the order of the source:
  \<^verbatim>\<open>if (json.data)\<close> holds for a string that is not empty;
  \<^verbatim>\<open>else if (json.data === null)\<close> holds for \<^verbatim>\<open>null\<close>; everything else is fetched
  (\<open>None\<close>).
\<close>

fun inline_data :: "json_data \<Rightarrow> string option" where
  "inline_data (Str (c # s)) = Some (c # s)"
| "inline_data Null = Some []"
| "inline_data _ = None"

function deserialize :: "env \<Rightarrow> IFile \<Rightarrow> string \<Rightarrow> node async" where
  "deserialize E json basePath =
     (case children json of
        Some cs \<Rightarrow>
          (let p = Promise_all (map (\<lambda>x. deserialize E x (basePath @ ''/'' @ name json)) cs)
           in \<lparr>requests = requests p,
               settled_at = settled_at p,
               outcome = (case outcome p of
                            Inl e \<Rightarrow> Inl e
                          | Inr fs \<Rightarrow>
                              Inr (DirectoryNode (name json) (fold (\<lambda>f d. addFile d f) fs [])))\<rparr>)
      | None \<Rightarrow>
          (case inline_data (data json) of
             Some s \<Rightarrow>
               \<lparr>requests = [], settled_at = 0,
                outcome = Inr (FileNode (name json) (type json) (description json) (Some (Text s)))\<rparr>
           | None \<Rightarrow>
               (let url = basePath @ ''/'' @ name json
                in \<lparr>requests = [url], settled_at = latency E url,
                    outcome = (case fetch E url of
                                 Inl e \<Rightarrow> Inl e
                               | Inr text \<Rightarrow>
                                   Inr (FileNode (name json) (type json) (description json)
                                         (Some (Text text))))\<rparr>)))"
  by pat_completeness auto
termination
proof (relation "measure (\<lambda>(E, json, basePath). size json)")
  show "wf (measure (\<lambda>(E, json, basePath). size json))"
    by simp
next
  fix E :: env and json :: IFile and basePath :: string and cs x
  assume "children json = Some cs" and "x \<in> set cs"
  then have "size x < size json"
    using size_list_estimation'[of x cs "size x" size] by (cases json) auto
  then show "((E, x, basePath @ ''/'' @ name json), (E, json, basePath))
      \<in> measure (\<lambda>(E, json, basePath). size json)"
    by simp
qed

declare deserialize.simps [simp del]

text \<open>The name of a file or directory object (\<^verbatim>\<open>file.name\<close>).\<close>

fun node_name :: "node \<Rightarrow> string" where
  "node_name (FileNode n t d c) = n"
| "node_name (DirectoryNode n fs) = n"

text \<open>The array case of \<^verbatim>\<open>deserialize\<close>: \<^verbatim>\<open>Array.isArray(json)\<close>.\<close>

definition deserialize_array :: "env \<Rightarrow> IFile list \<Rightarrow> string \<Rightarrow> node list async" where
  "deserialize_array E json basePath = Promise_all (map (\<lambda>x. deserialize E x basePath) json)"

text \<open>
  The description of a project (the argument \<^verbatim>\<open>json\<close> of \<^verbatim>\<open>loadProject\<close>) and the
  project object it fills.
\<close>

record ProjectJson =
  project_name :: string
  project_directory :: string
  project_children :: "IFile list"

record Project =
  pname :: string
  pfiles :: "node list"

definition loadProject :: "env \<Rightarrow> ProjectJson \<Rightarrow> Project \<Rightarrow> ProjectJson async \<times> Project" where
  "loadProject E json project =
     (let project1 = project\<lparr>pname := project_name json\<rparr>;
          p = deserialize_array E (project_children json) (''templates/'' @ project_directory json)
      in case outcome p of
           Inl e \<Rightarrow> (\<lparr>requests = requests p, settled_at = settled_at p, outcome = Inl e\<rparr>, project1)
         | Inr fs \<Rightarrow>
             (\<lparr>requests = requests p, settled_at = settled_at p, outcome = Inr json\<rparr>,
              project1\<lparr>pfiles := fold (\<lambda>f d. addFile d f) fs (pfiles project1)\<rparr>))"

subsection \<open>The post-processors as a family\<close>

text \<open>
  The calls that need an engine, each with the name of the global it reads.  Running a
  call keeps the world it leaves and whether it failed.
\<close>

datatype operation =
    DisassembleWasm "FileData option"
  | DisassembleWasmWithWabt nat
  | AssembleWat "FileData option"
  | AssembleWatWithWabt nat
  | DisassembleWasmWithBinaryen nat
  | ConvertWasmToAsmWithBinaryen nat
  | CompileMarkdownToHtml string

fun required_global :: "operation \<Rightarrow> string" where
  "required_global (DisassembleWasm buffer) = ''wabt''"
| "required_global (DisassembleWasmWithWabt a) = ''wabt''"
| "required_global (AssembleWat wat) = ''wabt''"
| "required_global (AssembleWatWithWabt a) = ''wabt''"
| "required_global (DisassembleWasmWithBinaryen a) = ''Binaryen''"
| "required_global (ConvertWasmToAsmWithBinaryen a) = ''Binaryen''"
| "required_global (CompileMarkdownToHtml src) = ''showdown''"

text \<open>The resource that \<^verbatim>\<open>lazyLoad\<close> fetches for the call when the global is undefined.\<close>

fun required_uri :: "operation \<Rightarrow> string" where
  "required_uri (DisassembleWasm buffer) = ''lib/libwabt.js''"
| "required_uri (DisassembleWasmWithWabt a) = ''lib/libwabt.js''"
| "required_uri (AssembleWat wat) = ''lib/libwabt.js''"
| "required_uri (AssembleWatWithWabt a) = ''lib/libwabt.js''"
| "required_uri (DisassembleWasmWithBinaryen a) = ''lib/binaryen.js''"
| "required_uri (ConvertWasmToAsmWithBinaryen a) = ''lib/binaryen.js''"
| "required_uri (CompileMarkdownToHtml src) = ''lib/showdown.min.js''"

text \<open>
  A step from \<open>w\<close> to \<open>w'\<close> that loads at most the engine \<open>X\<close> from \<open>uri\<close>: what
  it adds to the trace is requests for that resource and evaluations, and it leaves
  every other global as it was.
\<close>

definition only_loads :: "string \<Rightarrow> string \<Rightarrow> world \<Rightarrow> world \<Rightarrow> bool" where
  "only_loads X uri w w' \<longleftrightarrow>
     (\<exists>evs. trace w' = trace w @ evs \<and>
        (\<forall>e \<in> set evs. e = Fetch (baseUrl @ uri) \<or> (\<exists>c. e = Evaluate c))) \<and>
     (\<forall>Y. Y \<noteq> X \<longrightarrow> globals w' Y = globals w Y)"

definition forget :: "(error + 'a) \<times> world \<Rightarrow> (error + unit) \<times> world" where
  "forget r = (map_sum id (\<lambda>v. ()) (fst r), snd r)"

fun perform :: "env \<Rightarrow> operation \<Rightarrow> world \<Rightarrow> (error + unit) \<times> world" where
  "perform E (DisassembleWasm buffer) w = forget (disassembleWasm E buffer w)"
| "perform E (DisassembleWasmWithWabt a) w = disassembleWasmWithWabt E a w"
| "perform E (AssembleWat wat) w = forget (assembleWat E wat w)"
| "perform E (AssembleWatWithWabt a) w = assembleWatWithWabt E a w"
| "perform E (DisassembleWasmWithBinaryen a) w = disassembleWasmWithBinaryen E a w"
| "perform E (ConvertWasmToAsmWithBinaryen a) w = convertWasmToAsmWithBinaryen E a w"
| "perform E (CompileMarkdownToHtml src) w = forget (compileMarkdownToHtml E src w)"

definition perform_all :: "env \<Rightarrow> operation list \<Rightarrow> world \<Rightarrow> world" where
  "perform_all E ops w = fold (\<lambda>op w. snd (perform E op w)) ops w"

section \<open>Concrete inputs\<close>

text \<open>A world in which nothing has happened yet, and an environment that is offline.\<close>

definition empty_world :: world where
  "empty_world = \<lparr>trace = [], globals = (\<lambda>X. None), file_objects = [], directory_objects = []\<rparr>"

definition offline :: env where
  "offline = \<lparr>createCompilerService = (\<lambda>from to. Inl (Failure ''offline'')),
     getPath = fname,
     fetch = (\<lambda>url. Inl (Failure ''offline'')),
     latency = (\<lambda>url. 0),
     evalCode = (\<lambda>code. Inl (Failure ''offline''))\<rparr>"

definition main_cpp :: File where
  "main_cpp = \<lparr>fname = ''main.cpp'', ftype = Some ''cpp'', fdescription = None,
      fdata = Some (Text ''int main() { return 0 }''), fparent = None\<rparr>"

definition a_wasm :: File where
  "a_wasm = \<lparr>fname = ''a.wasm'', ftype = Some ''wasm'', fdescription = None,
      fdata = Some (Binary [0, 97, 115, 109]), fparent = None\<rparr>"

text \<open>A backend that rejects every program.\<close>

definition failing_service :: CompilerService where
  "failing_service = CompilerService (\<lambda>input.
     Inr \<lparr>success = False, console = ''main.cpp:1:1: error: expected expression'', items = []\<rparr>)"

definition failing_backend :: env where
  "failing_backend = offline\<lparr>createCompilerService := (\<lambda>from to. Inr failing_service)\<rparr>"

text \<open>A backend for another target than wasm.\<close>

definition x86_service :: CompilerService where
  "x86_service = CompilerService (\<lambda>input.
     Inr \<lparr>success = True, console = [], items = [(''a.json'', Some (Text ''{}''))]\<rparr>)"

definition x86_backend :: env where
  "x86_backend = offline\<lparr>createCompilerService := (\<lambda>from to. Inr x86_service)\<rparr>"

text \<open>
  A backend that answers with a module, an output whose content is the empty string and
  an output without content.
\<close>

definition blank_output :: ServiceOutput where
  "blank_output = \<lparr>success = True, console = [],
     items = [(''a.wasm'', Some (Binary [0, 97, 115, 109])), (''a.txt'', Some (Text [])),
              (''a.map'', None)]\<rparr>"

definition blank_service :: CompilerService where
  "blank_service = CompilerService (\<lambda>input. Inr blank_output)"

definition blank_backend :: env where
  "blank_backend = offline\<lparr>createCompilerService := (\<lambda>from to. Inr blank_service)\<rparr>"




text \<open>A backend that answers with a module, its glue script and a third file.\<close>

definition bindgen_service :: CompilerService where
  "bindgen_service = CompilerService (\<lambda>input.
     Inr \<lparr>success = True, console = [],
          items = [(''wasm_bindgen.js'', Some (Text ''export {}'')),
                   (''a.wasm'', Some (Binary [0, 97, 115, 109])),
                   (''a.d.ts'', Some (Text ''declare''))]\<rparr>)"

definition bindgen_backend :: env where
  "bindgen_backend = offline\<lparr>createCompilerService := (\<lambda>from to. Inr bindgen_service)\<rparr>"

text \<open>An engine as \<^verbatim>\<open>libwabt.js\<close> gives it, and a server that delivers it.\<close>

definition wabt_engine :: engine where
  "wabt_engine = \<lparr>readWasm = (\<lambda>buffer. Inr ''(module)''),
     parseWat = (\<lambda>wat. Inr (Binary [0, 97, 115, 109])),
     readBinary = (\<lambda>d. Inl (Failure ''wabt.readBinary is not a function'')),
     makeHtml = (\<lambda>src. Inl (Failure ''wabt.Converter is not a constructor''))\<rparr>"

definition studio :: env where
  "studio = offline\<lparr>fetch := (\<lambda>url. Inr ''var wabt = {};''),
     evalCode := (\<lambda>code. Inr [Some wabt_engine])\<rparr>"

text \<open>
  An engine as \<^verbatim>\<open>binaryen.js\<close> gives it, and a project of one directory that holds
  one compiled module, with the engine loaded.
\<close>

definition binaryen_engine :: engine where
  "binaryen_engine = \<lparr>readWasm = (\<lambda>buffer. Inl (Failure ''Binaryen.readWasm is not a function'')),
     parseWat = (\<lambda>wat. Inl (Failure ''Binaryen.parseWat is not a function'')),
     readBinary = (\<lambda>d. Inr \<lparr>emitText = Inr ''(module)'', emitAsmjs = Inr ''function asmFunc() {}''\<rparr>),
     makeHtml = (\<lambda>src. Inl (Failure ''Binaryen.Converter is not a constructor''))\<rparr>"

definition project_world :: world where
  "project_world = \<lparr>trace = [], globals = (\<lambda>X. None)(''Binaryen'' := Some binaryen_engine),
     file_objects = [\<lparr>fname = ''main.wasm'', ftype = Some ''wasm'', fdescription = None,
        fdata = Some (Binary [0, 97, 115, 109]), fparent = Some 0\<rparr>],
     directory_objects = [\<lparr>dname = ''out'', dchildren = [0]\<rparr>]\<rparr>"

text \<open>A server of templates that answers every request after three ticks.\<close>

definition readme_server :: env where
  "readme_server = offline\<lparr>fetch := (\<lambda>url. Inr ''# Title''), latency := (\<lambda>url. 3)\<rparr>"

definition blank_readme :: IFile where
  "blank_readme = IFile ''README.md'' None (Some ''markdown'') (Str []) None"

text \<open>
  A server that answers the request for \<^verbatim>\<open>a.c\<close> long after the others, and a project
  description with a directory of two files to fetch.
\<close>

definition slow_server :: env where
  "slow_server = offline\<lparr>fetch := (\<lambda>url. Inr (''// '' @ url)),
     latency := (\<lambda>url. if url = ''templates/hello/src/a.c'' then 9 else 2)\<rparr>"

definition src_directory :: IFile where
  "src_directory = IFile ''src''
     (Some [IFile ''a.c'' None (Some ''c'') Absent None,
            IFile ''b.c'' None (Some ''c'') Absent None,
            IFile ''lib'' (Some []) None Absent None])
     None Absent None"

definition hello_project :: ProjectJson where
  "hello_project = \<lparr>project_name = ''root'', project_directory = ''hello'',
     project_children = [IFile ''a.txt'' None None (Str ''hi'') None, src_directory,
                         IFile ''b'' (Some []) None Absent None]\<rparr>"

section \<open>Properties of the compilation\<close>

lemma compileFiles_failure:
  assumes "createCompilerService E from to = Inr service"
    and "compile service (compile_input E fs opts) = Inr result"
    and "\<not> success result"
  shows "fst (compileFiles E fs from to opts w) = Inl (Error (console result))"
  using assms by (simp add: compileFiles_def Let_def)

text \<open>
  Claim C1.  When the backend answers a compile request with \<open>success = False\<close>,
  \<^verbatim>\<open>compileFiles\<close> throws an error whose message is the console text of the answer, and
  returns no value; so do \<^verbatim>\<open>compileFileWithBindings\<close> and \<^verbatim>\<open>compileFile\<close>, which
  reach the backend through \<^verbatim>\<open>compileFiles\<close> with the one file they are given.
\<close>

theorem compile_failure_throws_console:
  assumes "createCompilerService E from to = Inr service"
    and "compile service (compile_input E fs opts) = Inr result"
    and "\<not> success result"
  shows "fst (compileFiles E fs from to opts w) = Inl (Error (console result)) \<and>
         (to = Language_Wasm \<and> fs = [file] \<longrightarrow>
            fst (compileFileWithBindings E file from to opts w) = Inl (Error (console result)) \<and>
            fst (compileFile E file from to opts w) = Inl (Error (console result)))"
proof -
  have "fst (compileFiles E fs from to opts w) = Inl (Error (console result))"
    using assms by (rule compileFiles_failure)
  then show ?thesis
    by (auto simp: compileFileWithBindings_def compileFile_def split: prod.splits sum.splits)
qed

theorem compile_failure_throws_console_witness:
  "fst (compileFiles failing_backend [main_cpp] ''cpp'' ''wasm'' ''-O2'' empty_world)
     = Inl (Error ''main.cpp:1:1: error: expected expression'') \<and>
   fst (compileFile failing_backend main_cpp ''cpp'' ''wasm'' ''-O2'' empty_world)
     = Inl (Error ''main.cpp:1:1: error: expected expression'')"
  using compile_failure_throws_console
    [of failing_backend "''cpp''" "''wasm''" failing_service "[main_cpp]" "''-O2''"
        "\<lparr>success = False, console = ''main.cpp:1:1: error: expected expression'', items = []\<rparr>"
        empty_world main_cpp]
  by (simp add: failing_backend_def failing_service_def Language_Wasm_def)

text \<open>
  Claim C2, as stated, fails for \<^verbatim>\<open>compileFiles\<close>: asked for the target \<^verbatim>\<open>x86\<close>, it
  asks for a compiler service, sends the request to it and returns its output.
\<close>

theorem compileFiles_other_target_counterexample:
  "''x86'' \<noteq> Language_Wasm \<and>
   compileFiles x86_backend [a_wasm] ''wasm'' ''x86'' [] empty_world
     = (Inr [(''a.json'', Text ''{}'')],
        empty_world\<lparr>trace := [CreateService ''wasm'' ''x86'',
          Compile \<lparr>files = [(''a.wasm'', Some (Binary [0, 97, 115, 109]))], options = []\<rparr>]\<rparr>)"
  by (simp add: compileFiles_def compile_input_def assign_def emit_def x86_backend_def
      x86_service_def a_wasm_def offline_def empty_world_def Language_Wasm_def)

text \<open>
  Claim C2, amended.  \<^verbatim>\<open>compileFileWithBindings\<close> and \<^verbatim>\<open>compileFile\<close>, called with
  a target other than wasm, throw the unsupported-target error at once and leave the
  world as it was: no call to a collaborator has been made.  \<^verbatim>\<open>compileFiles\<close> does
  not look at the target: whatever the target, its first step is to ask
  \<^verbatim>\<open>createCompilerService\<close> for a service for the pair of languages, and when that
  call fails, \<^verbatim>\<open>compileFiles\<close> fails with its error and sends no compile request.
\<close>

theorem unsupported_target_guard:
  "(to \<noteq> Language_Wasm \<longrightarrow>
      compileFileWithBindings E file from to opts w
        = (Inl (Error (''Only wasm target is supported, but \"'' @ to @ ''\" was found'')), w) \<and>
      compileFile E file from to opts w
        = (Inl (Error (''Only wasm target is supported, but \"'' @ to @ ''\" was found'')), w)) \<and>
   (\<exists>rest. trace (snd (compileFiles E fs from to opts w))
        = trace w @ CreateService from to # rest) \<and>
   (createCompilerService E from to = Inl e \<longrightarrow>
      compileFiles E fs from to opts w = (Inl e, w\<lparr>trace := trace w @ [CreateService from to]\<rparr>))"
  by (auto simp: compileFileWithBindings_def compileFile_def compileFiles_def emit_def Let_def
      split: sum.splits)

theorem unsupported_target_guard_witness:
  "compileFile offline a_wasm ''wasm'' ''x86'' [] empty_world
     = (Inl (Error ''Only wasm target is supported, but \"x86\" was found''), empty_world) \<and>
   compileFiles offline [a_wasm] ''wasm'' ''x86'' [] empty_world
     = (Inl (Failure ''offline''), empty_world\<lparr>trace := [CreateService ''wasm'' ''x86'']\<rparr>)"
  using unsupported_target_guard
    [of "''x86''" offline a_wasm "''wasm''" "[]" empty_world "[a_wasm]" "Failure ''offline''"]
  by (simp add: Language_Wasm_def offline_def empty_world_def)

lemma map_of_assign:
  "map_of (assign n v obj) k = (if k = n \<and> n \<noteq> ''__proto__'' then Some v else map_of obj k)"
  by (simp add: assign_def update_conv')


lemma outputFiles_truthy:
  "map_of (outputFiles its acc) k = Some v \<Longrightarrow>
   (\<And>u. map_of acc k = Some u \<Longrightarrow> truthy (Some u)) \<Longrightarrow> truthy (Some v)"
proof (induction its arbitrary: acc)
  case Nil
  then show ?case by simp
next
  case (Cons it its)
  obtain n c where it: "it = (n, c)" by (cases it)
  show ?case
  proof (cases "truthy c")
    case True
    then obtain x where c: "c = Some x" by (cases c) auto
    have "map_of (outputFiles its (assign n x acc)) k = Some v"
      using Cons.prems(1) it c True by simp
    then show ?thesis
    proof (rule Cons.IH)
      fix u assume "map_of (assign n x acc) k = Some u"
      then show "truthy (Some u)"
        using True c Cons.prems(2) by (auto simp: map_of_assign split: if_splits)
    qed
  next
    case False
    then have "map_of (outputFiles its acc) k = Some v"
      using Cons.prems(1) it by (cases c) auto
    then show ?thesis
      using Cons.prems(2) by (rule Cons.IH)
  qed
qed




text \<open>
  Claim C4.  When the compilation of the one file succeeds with the mapping
  \<open>result\<close>, \<^verbatim>\<open>compileFileWithBindings\<close> returns as \<^verbatim>\<open>wasm\<close> what the mapping
  holds under \<^verbatim>\<open>"a.wasm"\<close> and as \<^verbatim>\<open>wasmBindgenJs\<close> what it holds under
  \<^verbatim>\<open>"wasm_bindgen.js"\<close>, each absent when the entry is absent.  It does not fail when
  \<^verbatim>\<open>"a.wasm"\<close> is missing, and no other entry of the mapping has a part in the result.
\<close>

theorem bindings_resolution:
  assumes "to = Language_Wasm"
    and "compileFiles E [file] from to opts w = (Inr result, w')"
  shows "compileFileWithBindings E file from to opts w
           = (Inr \<lparr>wasm = map_of result ''a.wasm'',
                   wasmBindgenJs = map_of result ''wasm_bindgen.js''\<rparr>, w') \<and>
         compileFile E file from to opts w = (Inr (map_of result ''a.wasm''), w')"
proof -
  have "truthy (Some v)" if "map_of result ''wasm_bindgen.js'' = Some v" for v
  proof -
    from assms(2) obtain its where "result = outputFiles its []"
      by (auto simp: compileFiles_def Let_def split: sum.splits if_splits)
    with that show ?thesis
      using outputFiles_truthy [of its "[]" "''wasm_bindgen.js''" v] by simp
  qed
  then have "truthy (map_of result ''wasm_bindgen.js'') \<or> map_of result ''wasm_bindgen.js'' = None"
    by (cases "map_of result ''wasm_bindgen.js''") auto
  then have "compileFileWithBindings E file from to opts w
           = (Inr \<lparr>wasm = map_of result ''a.wasm'',
                   wasmBindgenJs = map_of result ''wasm_bindgen.js''\<rparr>, w')"
    using assms by (auto simp: compileFileWithBindings_def Let_def)
  then show ?thesis
    by (simp add: compileFile_def)
qed

theorem bindings_resolution_witness:
  "compileFileWithBindings bindgen_backend main_cpp ''rust'' ''wasm'' [] empty_world
     = (Inr \<lparr>wasm = Some (Binary [0, 97, 115, 109]), wasmBindgenJs = Some (Text ''export {}'')\<rparr>,
        empty_world\<lparr>trace := [CreateService ''rust'' ''wasm'',
          Compile \<lparr>files = [(''main.cpp'', Some (Text ''int main() { return 0 }''))],
                   options = []\<rparr>]\<rparr>) \<and>
   compileFileWithBindings blank_backend main_cpp ''cpp'' ''wasm'' [] empty_world
     = (Inr \<lparr>wasm = Some (Binary [0, 97, 115, 109]), wasmBindgenJs = None\<rparr>,
        empty_world\<lparr>trace := [CreateService ''cpp'' ''wasm'',
          Compile \<lparr>files = [(''main.cpp'', Some (Text ''int main() { return 0 }''))],
                   options = []\<rparr>]\<rparr>) \<and>
   compileFileWithBindings x86_backend main_cpp ''cpp'' ''wasm'' [] empty_world
     = (Inr \<lparr>wasm = None, wasmBindgenJs = None\<rparr>,
        empty_world\<lparr>trace := [CreateService ''cpp'' ''wasm'',
          Compile \<lparr>files = [(''main.cpp'', Some (Text ''int main() { return 0 }''))],
                   options = []\<rparr>]\<rparr>)"
proof -
  let ?w = "\<lambda>from. empty_world\<lparr>trace := [CreateService from ''wasm'',
          Compile \<lparr>files = [(''main.cpp'', Some (Text ''int main() { return 0 }''))],
                   options = []\<rparr>]\<rparr>"
  have wasm: "''wasm'' = Language_Wasm"
    by (simp add: Language_Wasm_def)
  have a: "compileFiles bindgen_backend [main_cpp] ''rust'' ''wasm'' [] empty_world
      = (Inr [(''wasm_bindgen.js'', Text ''export {}''), (''a.wasm'', Binary [0, 97, 115, 109]),
              (''a.d.ts'', Text ''declare'')], ?w ''rust'')"
    by (simp add: compileFiles_def compile_input_def assign_def emit_def bindgen_backend_def
        bindgen_service_def main_cpp_def offline_def empty_world_def)
  have b: "compileFiles blank_backend [main_cpp] ''cpp'' ''wasm'' [] empty_world
      = (Inr [(''a.wasm'', Binary [0, 97, 115, 109])], ?w ''cpp'')"
    by (simp add: compileFiles_def compile_input_def assign_def emit_def blank_backend_def
        blank_service_def blank_output_def main_cpp_def offline_def empty_world_def)
  have c: "compileFiles x86_backend [main_cpp] ''cpp'' ''wasm'' [] empty_world
      = (Inr [(''a.json'', Text ''{}'')], ?w ''cpp'')"
    by (simp add: compileFiles_def compile_input_def assign_def emit_def x86_backend_def
        x86_service_def main_cpp_def offline_def empty_world_def)
  show ?thesis
    using bindings_resolution [OF wasm a] bindings_resolution [OF wasm b]
      bindings_resolution [OF wasm c]
    by simp
qed

section \<open>Properties of the engine loader\<close>

text \<open>
  Claim C7.  For a uri that is none of the three known ones, \<^verbatim>\<open>lazyLoad\<close> throws
  the error \<^verbatim>\<open>"Unknow lazyLoad uri: "\<close> followed by the uri, and the world is as
  before: nothing was fetched and nothing evaluated.
\<close>

theorem lazyLoad_unknown_uri:
  assumes "uri \<noteq> ''lib/libwabt.js''" and "uri \<noteq> ''lib/showdown.min.js''"
    and "uri \<noteq> ''lib/binaryen.js''"
  shows "lazyLoad E uri w = (Inl (Error (''Unknow lazyLoad uri: '' @ uri)), w)"
  using assms by (simp add: lazyLoad_def lazyLoad_exports_def)

theorem lazyLoad_unknown_uri_witness:
  "lazyLoad studio ''lib/capstone.x86.min.js'' empty_world
     = (Inl (Error ''Unknow lazyLoad uri: lib/capstone.x86.min.js''), empty_world)"
  using lazyLoad_unknown_uri [of "''lib/capstone.x86.min.js''" studio empty_world]
  by simp

lemma load_if_undefined_loaded:
  "globals w X = Some g \<Longrightarrow> load_if_undefined E X uri w = (Inr (), w)"
  by (simp add: load_if_undefined_def)

lemma newFile_frame:
  "trace (snd (newFile d path t w)) = trace w \<and> globals (snd (newFile d path t w)) = globals w"
  by (simp add: newFile_def Let_def)

lemma new_output_frame:
  assumes "new_output f suffix t descr w = (r, w')"
  shows "trace w' = trace w \<and> globals w' = globals w"
proof (cases "fparent f")
  case None
  with assms show ?thesis by (simp add: new_output_def)
next
  case (Some d)
  obtain r0 w0 where n: "newFile d (fname f @ suffix) t w = (r0, w0)"
    by (cases "newFile d (fname f @ suffix) t w")
  with newFile_frame [of d "fname f @ suffix" t w]
  have "trace w0 = trace w \<and> globals w0 = globals w" by simp
  with Some n assms show ?thesis
    by (cases r0) (auto simp: new_output_def set_description_def)
qed

lemma setData_frame:
  "trace (setData a d w) = trace w \<and> globals (setData a d w) = globals w"
  by (simp add: setData_def)

lemma write_output_frame:
  "trace (snd (write_output f suffix t descr result w)) = trace w \<and>
   globals (snd (write_output f suffix t descr result w)) = globals w"
proof -
  obtain r w' where n: "new_output f suffix t descr w = (r, w')"
    by (cases "new_output f suffix t descr w")
  from new_output_frame [OF n] n show ?thesis
    by (cases r) (simp_all add: write_output_def setData_frame)
qed

text \<open>
  After its guard, \<^verbatim>\<open>disassembleWasmWithBinaryen\<close> sends nothing and binds nothing, and
  it succeeds only with the engine bound.
\<close>

lemma disassembleWasmWithBinaryen_after_load:
  assumes "load_if_undefined E ''Binaryen'' ''lib/binaryen.js'' w = (r1, w1)"
  shows "trace (snd (disassembleWasmWithBinaryen E a w)) = trace w1 \<and>
         globals (snd (disassembleWasmWithBinaryen E a w)) = globals w1 \<and>
         (fst (disassembleWasmWithBinaryen E a w) = Inr () \<longrightarrow> globals w1 ''Binaryen'' \<noteq> None)"
proof (cases r1)
  case (Inl e)
  with assms show ?thesis by (simp add: disassembleWasmWithBinaryen_def)
next
  case r1: (Inr u)
  show ?thesis
  proof (cases "get_file w1 a")
    case (Inl e)
    with assms r1 show ?thesis by (simp add: disassembleWasmWithBinaryen_def)
  next
    case f: (Inr f)
    show ?thesis
    proof (cases "globals w1 ''Binaryen''")
      case None
      with assms r1 f show ?thesis
        by (simp add: disassembleWasmWithBinaryen_def the_global_def)
    next
      case g: (Some g)
      show ?thesis
      proof (cases "readBinary g (fdata f)")
        case (Inl e)
        with assms r1 f g show ?thesis
          by (simp add: disassembleWasmWithBinaryen_def the_global_def)
      next
        case m: (Inr m)
        obtain r2 w2 where n: "new_output f ''.wat'' FileType_Wat
            (''Disassembled from '' @ fname f @ '' using Binaryen.'') w1 = (r2, w2)"
          by (cases "new_output f ''.wat'' FileType_Wat
            (''Disassembled from '' @ fname f @ '' using Binaryen.'') w1")
        from new_output_frame [OF n] have fr: "trace w2 = trace w1" "globals w2 = globals w1"
          by simp_all
        show ?thesis
        proof (cases r2)
          case (Inl e)
          with assms r1 f g m n fr show ?thesis
            by (simp add: disassembleWasmWithBinaryen_def the_global_def)
        next
          case (Inr out)
          with assms r1 f g m n fr show ?thesis
            by (cases "emitText m")
              (simp_all add: disassembleWasmWithBinaryen_def the_global_def setData_frame)
        qed
      qed
    qed
  qed
qed

lemma perform_loaded:
  assumes "globals w (required_global op) = Some g"
  shows "trace (snd (perform E op w)) = trace w \<and> globals (snd (perform E op w)) = globals w"
proof (cases op)
  case (DisassembleWasm buffer)
  then show ?thesis
    using assms
    by (simp add: forget_def disassembleWasm_def load_if_undefined_loaded the_global_def)
next
  case (DisassembleWasmWithWabt a)
  then show ?thesis
    using assms
    by (auto simp: disassembleWasmWithWabt_def disassembleWasm_def load_if_undefined_loaded
        the_global_def write_output_frame split: sum.splits prod.splits)
next
  case (AssembleWat wat)
  then show ?thesis
    using assms
    by (simp add: forget_def assembleWat_def load_if_undefined_loaded the_global_def)
next
  case (AssembleWatWithWabt a)
  then show ?thesis
    using assms
    by (auto simp: assembleWatWithWabt_def assembleWat_def load_if_undefined_loaded
        the_global_def write_output_frame split: sum.splits prod.splits)
next
  case (DisassembleWasmWithBinaryen a)
  with assms have "load_if_undefined E ''Binaryen'' ''lib/binaryen.js'' w = (Inr (), w)"
    by (simp add: load_if_undefined_loaded)
  from disassembleWasmWithBinaryen_after_load [OF this, of a] DisassembleWasmWithBinaryen
  show ?thesis by simp
next
  case (ConvertWasmToAsmWithBinaryen a)
  then show ?thesis
    using assms
    by (auto simp: convertWasmToAsmWithBinaryen_def load_if_undefined_loaded
        the_global_def write_output_frame split: sum.splits prod.splits)
next
  case (CompileMarkdownToHtml src)
  then show ?thesis
    using assms
    by (simp add: forget_def compileMarkdownToHtml_def load_if_undefined_loaded the_global_def)
qed


lemma the_global_Inr: "the_global X prop w = Inr g \<Longrightarrow> globals w X = Some g"
  by (simp add: the_global_def split: option.splits)

lemma perform_success_bound:
  assumes "fst (perform E op w) = Inr ()"
  shows "globals (snd (perform E op w)) (required_global op) \<noteq> None"
proof (cases op)
  case (DisassembleWasm buffer)
  with assms show ?thesis
    by (auto simp: forget_def disassembleWasm_def
        split: sum.splits prod.splits dest: the_global_Inr)
next
  case (DisassembleWasmWithWabt a)
  with assms show ?thesis
    by (auto simp: disassembleWasmWithWabt_def disassembleWasm_def write_output_frame
        split: sum.splits prod.splits dest: the_global_Inr)
next
  case (AssembleWat wat)
  with assms show ?thesis
    by (auto simp: forget_def assembleWat_def
        split: sum.splits prod.splits dest: the_global_Inr)
next
  case (AssembleWatWithWabt a)
  with assms show ?thesis
    by (auto simp: assembleWatWithWabt_def assembleWat_def write_output_frame
        split: sum.splits prod.splits dest: the_global_Inr)
next
  case (DisassembleWasmWithBinaryen a)
  obtain r1 w1 where l: "load_if_undefined E ''Binaryen'' ''lib/binaryen.js'' w = (r1, w1)"
    by (cases "load_if_undefined E ''Binaryen'' ''lib/binaryen.js'' w")
  from disassembleWasmWithBinaryen_after_load [OF l, of a] assms DisassembleWasmWithBinaryen
  show ?thesis by simp
next
  case (ConvertWasmToAsmWithBinaryen a)
  with assms show ?thesis
    by (auto simp: convertWasmToAsmWithBinaryen_def write_output_frame
        split: sum.splits prod.splits dest: the_global_Inr)
next
  case (CompileMarkdownToHtml src)
  with assms show ?thesis
    by (auto simp: forget_def compileMarkdownToHtml_def
        split: sum.splits prod.splits dest: the_global_Inr)
qed

lemma only_loads_refl: "only_loads X uri w w"
  by (simp add: only_loads_def)

lemma lazyLoad_only_loads:
  "lazyLoad_exports uri = Some [X] \<Longrightarrow> only_loads X uri w (snd (lazyLoad E uri w))"
  by (auto simp: only_loads_def lazyLoad_def emit_def Let_def bind_exports_def
      split: sum.splits)

lemma load_if_undefined_only_loads:
  "lazyLoad_exports uri = Some [X] \<Longrightarrow> only_loads X uri w (snd (load_if_undefined E X uri w))"
  by (simp add: load_if_undefined_def lazyLoad_only_loads only_loads_refl split: option.splits)

lemma only_loads_write_output:
  "only_loads X uri w w' \<Longrightarrow> only_loads X uri w (snd (write_output f suffix t descr result w'))"
  using write_output_frame [of f suffix t descr result w'] by (simp add: only_loads_def)

lemma exports_wabt: "lazyLoad_exports ''lib/libwabt.js'' = Some [''wabt'']"
  and exports_binaryen: "lazyLoad_exports ''lib/binaryen.js'' = Some [''Binaryen'']"
  and exports_showdown: "lazyLoad_exports ''lib/showdown.min.js'' = Some [''showdown'']"
  by (simp_all add: lazyLoad_exports_def)

lemma disassembleWasm_only_loads:
  "only_loads ''wabt'' ''lib/libwabt.js'' w (snd (disassembleWasm E buffer w))"
  using load_if_undefined_only_loads [OF exports_wabt, of w E]
  by (auto simp: disassembleWasm_def split: prod.splits sum.splits)

lemma assembleWat_only_loads:
  "only_loads ''wabt'' ''lib/libwabt.js'' w (snd (assembleWat E wat w))"
  using load_if_undefined_only_loads [OF exports_wabt, of w E]
  by (auto simp: assembleWat_def split: prod.splits sum.splits)

lemma perform_only_loads:
  "only_loads (required_global op) (required_uri op) w (snd (perform E op w))"
proof (cases op)
  case (DisassembleWasm buffer)
  then show ?thesis
    using disassembleWasm_only_loads [of w E buffer] by (simp add: forget_def)
next
  case (DisassembleWasmWithWabt a)
  show ?thesis
  proof (cases "get_file w a")
    case (Inl e)
    with DisassembleWasmWithWabt show ?thesis
      by (simp add: disassembleWasmWithWabt_def only_loads_refl)
  next
    case (Inr f)
    obtain r w' where d: "disassembleWasm E (fdata f) w = (r, w')"
      by (cases "disassembleWasm E (fdata f) w")
    with disassembleWasm_only_loads [of w E "fdata f"]
    have "only_loads ''wabt'' ''lib/libwabt.js'' w w'" by simp
    with DisassembleWasmWithWabt Inr d show ?thesis
      by (cases r) (simp_all add: disassembleWasmWithWabt_def only_loads_write_output)
  qed
next
  case (AssembleWat wat)
  then show ?thesis
    using assembleWat_only_loads [of w E wat] by (simp add: forget_def)
next
  case (AssembleWatWithWabt a)
  show ?thesis
  proof (cases "get_file w a")
    case (Inl e)
    with AssembleWatWithWabt show ?thesis
      by (simp add: assembleWatWithWabt_def only_loads_refl)
  next
    case (Inr f)
    obtain r w' where d: "assembleWat E (fdata f) w = (r, w')"
      by (cases "assembleWat E (fdata f) w")
    with assembleWat_only_loads [of w E "fdata f"]
    have "only_loads ''wabt'' ''lib/libwabt.js'' w w'" by simp
    with AssembleWatWithWabt Inr d show ?thesis
      by (cases r) (simp_all add: assembleWatWithWabt_def only_loads_write_output)
  qed
next
  case (DisassembleWasmWithBinaryen a)
  obtain r w' where l: "load_if_undefined E ''Binaryen'' ''lib/binaryen.js'' w = (r, w')"
    by (cases "load_if_undefined E ''Binaryen'' ''lib/binaryen.js'' w")
  with load_if_undefined_only_loads [OF exports_binaryen, of w E]
  have "only_loads ''Binaryen'' ''lib/binaryen.js'' w w'" by simp
  with disassembleWasmWithBinaryen_after_load [OF l, of a] DisassembleWasmWithBinaryen
  show ?thesis by (simp add: only_loads_def)
next
  case (ConvertWasmToAsmWithBinaryen a)
  obtain r w' where l: "load_if_undefined E ''Binaryen'' ''lib/binaryen.js'' w = (r, w')"
    by (cases "load_if_undefined E ''Binaryen'' ''lib/binaryen.js'' w")
  with load_if_undefined_only_loads [OF exports_binaryen, of w E]
  have "only_loads ''Binaryen'' ''lib/binaryen.js'' w w'" by simp
  with ConvertWasmToAsmWithBinaryen l show ?thesis
    by (auto simp: convertWasmToAsmWithBinaryen_def only_loads_write_output split: sum.splits)
next
  case (CompileMarkdownToHtml src)
  then show ?thesis
    using load_if_undefined_only_loads [OF exports_showdown, of w E]
    by (auto simp: forget_def compileMarkdownToHtml_def split: prod.splits sum.splits)
qed

lemma uri_global: "required_uri op = required_uri op' \<longleftrightarrow> required_global op = required_global op'"
  by (cases op; cases op') simp_all

lemma perform_all_no_reload:
  assumes "globals w (required_global op) = Some g"
  shows "globals (perform_all E ops w) (required_global op) = Some g \<and>
         (\<exists>evs. trace (perform_all E ops w) = trace w @ evs \<and>
                Fetch (baseUrl @ required_uri op) \<notin> set evs)"
  using assms
proof (induction ops arbitrary: w)
  case Nil
  then show ?case by (simp add: perform_all_def)
next
  case (Cons op' ops)
  let ?w = "snd (perform E op' w)"
  have step: "globals ?w (required_global op) = Some g \<and>
      (\<exists>evs. trace ?w = trace w @ evs \<and> Fetch (baseUrl @ required_uri op) \<notin> set evs)"
  proof (cases "required_global op' = required_global op")
    case True
    with Cons.prems perform_loaded [of w op' g E] show ?thesis by simp
  next
    case False
    then have "required_uri op' \<noteq> required_uri op"
      by (simp add: uri_global)
    from perform_only_loads [of op' w E] obtain evs where
      evs: "trace ?w = trace w @ evs"
        "\<And>e. e \<in> set evs \<Longrightarrow> e = Fetch (baseUrl @ required_uri op') \<or> (\<exists>c. e = Evaluate c)"
      and frame: "\<And>Y. Y \<noteq> required_global op' \<Longrightarrow> globals ?w Y = globals w Y"
      unfolding only_loads_def by blast
    have "Fetch (baseUrl @ required_uri op) \<notin> set evs"
    proof
      assume "Fetch (baseUrl @ required_uri op) \<in> set evs"
      from evs(2) [OF this] \<open>required_uri op' \<noteq> required_uri op\<close> show False by simp
    qed
    with evs(1) frame False Cons.prems show ?thesis by auto
  qed
  then obtain evs where evs: "trace ?w = trace w @ evs" "Fetch (baseUrl @ required_uri op) \<notin> set evs"
    and g: "globals ?w (required_global op) = Some g"
    by blast
  from Cons.IH [OF g] obtain evs' where
    "globals (perform_all E ops ?w) (required_global op) = Some g"
    "trace (perform_all E ops ?w) = trace ?w @ evs'" "Fetch (baseUrl @ required_uri op) \<notin> set evs'"
    by blast
  with evs show ?case
    by (simp add: perform_all_def)
qed

text \<open>
  Claim C8.  A call that needs an engine whose global is already bound fetches nothing
  and evaluates nothing, and leaves the globals as they are.  Once the global is bound
  it stays bound, and no call of any later sequence of calls requests the resource of
  that engine again.  A call that succeeds leaves the global of its engine bound.  So
  in sequential use an engine is loaded once.
\<close>

theorem loaded_engine_is_not_loaded_again:
  "(globals w (required_global op) \<noteq> None \<longrightarrow>
      trace (snd (perform E op w)) = trace w \<and> globals (snd (perform E op w)) = globals w) \<and>
   (globals w (required_global op) \<noteq> None \<longrightarrow>
      globals (perform_all E ops w) (required_global op) = globals w (required_global op) \<and>
      (\<exists>evs. trace (perform_all E ops w) = trace w @ evs \<and>
             Fetch (baseUrl @ required_uri op) \<notin> set evs)) \<and>
   (fst (perform E op w) = Inr () \<longrightarrow>
      globals (snd (perform E op w)) (required_global op) \<noteq> None)"
proof -
  have one: "trace (snd (perform E op w)) = trace w \<and> globals (snd (perform E op w)) = globals w"
    if "globals w (required_global op) \<noteq> None"
  proof -
    from that obtain g where "globals w (required_global op) = Some g" by auto
    then show ?thesis by (rule perform_loaded)
  qed
  have later: "globals (perform_all E ops w) (required_global op) = globals w (required_global op) \<and>
      (\<exists>evs. trace (perform_all E ops w) = trace w @ evs \<and>
             Fetch (baseUrl @ required_uri op) \<notin> set evs)"
    if "globals w (required_global op) \<noteq> None"
  proof -
    from that obtain g where "globals w (required_global op) = Some g" by auto
    with perform_all_no_reload [of w op g E ops] show ?thesis by simp
  qed
  have bound: "globals (snd (perform E op w)) (required_global op) \<noteq> None"
    if "fst (perform E op w) = Inr ()"
    using that by (rule perform_success_bound)
  from one later bound show ?thesis by blast
qed

theorem loaded_engine_is_not_loaded_again_witness:
  "fst (perform studio (DisassembleWasm (Some (Binary [0, 97, 115, 109]))) empty_world) = Inr () \<and>
   trace (snd (perform studio (DisassembleWasm (Some (Binary [0, 97, 115, 109]))) empty_world))
     = [Fetch ''https://webassembly.studio/lib/libwabt.js'',
        Evaluate (''var wabt = {};'' @ [CHR 0x0A] @ ''return [wabt];'')] \<and>
   trace (snd (perform studio (AssembleWat (Some (Text ''(module)'')))
       (snd (perform studio (DisassembleWasm (Some (Binary [0, 97, 115, 109]))) empty_world))))
     = [Fetch ''https://webassembly.studio/lib/libwabt.js'',
        Evaluate (''var wabt = {};'' @ [CHR 0x0A] @ ''return [wabt];'')] \<and>
   trace (perform_all studio
       [AssembleWat (Some (Text ''(module)'')), CompileMarkdownToHtml ''# Title'', DisassembleWasm None]
       (snd (perform studio (DisassembleWasm (Some (Binary [0, 97, 115, 109]))) empty_world)))
     = [Fetch ''https://webassembly.studio/lib/libwabt.js'',
        Evaluate (''var wabt = {};'' @ [CHR 0x0A] @ ''return [wabt];''),
        Fetch ''https://webassembly.studio/lib/showdown.min.js'',
        Evaluate (''var wabt = {};'' @ [CHR 0x0A] @ ''return [showdown];'')]"
proof -
  let ?op = "DisassembleWasm (Some (Binary [0, 97, 115, 109]))"
  let ?ops = "[AssembleWat (Some (Text ''(module)'')), CompileMarkdownToHtml ''# Title'',
               DisassembleWasm None]"
  let ?t = "[Fetch ''https://webassembly.studio/lib/libwabt.js'',
        Evaluate (''var wabt = {};'' @ [CHR 0x0A] @ ''return [wabt];'')]"
  let ?w = "\<lparr>trace = ?t, globals = (\<lambda>X. None)(''wabt'' := Some wabt_engine),
        file_objects = [], directory_objects = []\<rparr>"
  have run: "perform studio ?op empty_world = (Inr (), ?w)"
    by (simp add: forget_def disassembleWasm_def load_if_undefined_def lazyLoad_def
        lazyLoad_exports_def the_global_def bind_exports_def at_index_def emit_def baseUrl_def
        studio_def offline_def empty_world_def wabt_engine_def)
  have all: "trace (perform_all studio ?ops ?w) = ?t @
       [Fetch ''https://webassembly.studio/lib/showdown.min.js'',
        Evaluate (''var wabt = {};'' @ [CHR 0x0A] @ ''return [showdown];'')]"
    by (simp add: perform_all_def forget_def disassembleWasm_def assembleWat_def
        compileMarkdownToHtml_def load_if_undefined_def lazyLoad_def
        lazyLoad_exports_def the_global_def bind_exports_def at_index_def emit_def baseUrl_def
        studio_def offline_def wabt_engine_def)
  from loaded_engine_is_not_loaded_again [of empty_world ?op studio ?ops]
  have "globals ?w ''wabt'' \<noteq> None"
    by (simp add: run)
  with loaded_engine_is_not_loaded_again [of ?w "AssembleWat (Some (Text ''(module)''))" studio ?ops]
  have "trace (snd (perform studio (AssembleWat (Some (Text ''(module)''))) ?w)) = ?t"
    and "\<exists>evs. trace (perform_all studio ?ops ?w) = ?t @ evs \<and>
             Fetch (baseUrl @ ''lib/libwabt.js'') \<notin> set evs"
    by simp_all
  with run all show ?thesis by simp
qed

section \<open>Properties of the conversion\<close>

lemma lazyLoad_store:
  "file_objects (snd (lazyLoad E uri w)) = file_objects w \<and>
   directory_objects (snd (lazyLoad E uri w)) = directory_objects w"
  by (simp add: lazyLoad_def emit_def Let_def split: option.splits sum.splits)

lemma load_if_undefined_store:
  "file_objects (snd (load_if_undefined E X uri w)) = file_objects w \<and>
   directory_objects (snd (load_if_undefined E X uri w)) = directory_objects w"
  by (simp add: load_if_undefined_def lazyLoad_store split: option.splits)

lemma write_output_Inl:
  "write_output file suffix t descr result w = (Inl e, w') \<Longrightarrow> w' = w"
  by (auto simp: write_output_def new_output_def newFile_def Let_def
      split: option.splits if_splits)

lemma write_output_Inr:
  assumes "write_output file suffix t descr result w = (Inr u, w')"
  shows "\<exists>d. fparent file = Some d \<and> d < length (directory_objects w) \<and>
           file_objects w' = file_objects w @
             [\<lparr>fname = fname file @ suffix, ftype = Some t, fdescription = Some descr,
               fdata = Some result, fparent = Some d\<rparr>] \<and>
           directory_objects w' = (directory_objects w)
             [d := (directory_objects w ! d)
                \<lparr>dchildren := dchildren (directory_objects w ! d) @ [length (file_objects w)]\<rparr>] \<and>
           trace w' = trace w \<and> globals w' = globals w"
  using assms
  by (auto simp: write_output_def new_output_def newFile_def setData_def set_description_def
      Let_def split: option.splits if_splits)

text \<open>
  Claim C9.  Whatever its outcome, \<^verbatim>\<open>convertWasmToAsmWithBinaryen\<close> leaves every
  file object that existed before the call as it was, so the content of the source
  file is unchanged.  When it fails it creates no file.  When it succeeds it has
  created exactly one file object, under the parent of the source file, named after
  the source file with the suffix \<^verbatim>\<open>.asm.js\<close>, and its content is the text that the
  engine emitted for the content of the source file.
\<close>

theorem convert_leaves_source_unchanged:
  assumes "convertWasmToAsmWithBinaryen E a w = (r, w')"
  shows "take (length (file_objects w)) (file_objects w') = file_objects w \<and>
         get_file w' a = get_file w a \<and>
         (r \<noteq> Inr () \<longrightarrow> file_objects w' = file_objects w) \<and>
         (r = Inr () \<longrightarrow>
            (\<exists>file d binaryen module text.
               get_file w a = Inr file \<and> fparent file = Some d \<and>
               globals w' ''Binaryen'' = Some binaryen \<and>
               readBinary binaryen (fdata file) = Inr module \<and> emitAsmjs module = Inr text \<and>
               file_objects w' = file_objects w @
                 [\<lparr>fname = fname file @ ''.asm.js'', ftype = Some FileType_JavaScript,
                   fdescription = Some (''Converted from '' @ fname file @ '' using Binaryen.''),
                   fdata = Some (Text text), fparent = Some d\<rparr>] \<and>
               dchildren (directory_objects w' ! d) =
                 dchildren (directory_objects w ! d) @ [length (file_objects w)]))"
proof -
  obtain r1 w1 where l: "load_if_undefined E ''Binaryen'' ''lib/binaryen.js'' w = (r1, w1)"
    by (cases "load_if_undefined E ''Binaryen'' ''lib/binaryen.js'' w")
  with load_if_undefined_store [of E "''Binaryen''" "''lib/binaryen.js''" w]
  have store: "file_objects w1 = file_objects w" "directory_objects w1 = directory_objects w"
    by simp_all
  then have gf: "get_file w1 a = get_file w a"
    by (simp add: get_file_def)
  consider (stop) "w' = w1" "r \<noteq> Inr ()"
    | (wrote) f b m js where
        "get_file w1 a = Inr f" "globals w1 ''Binaryen'' = Some b"
        "readBinary b (fdata f) = Inr m" "emitAsmjs m = Inr js"
        "write_output f ''.asm.js'' FileType_JavaScript
           (''Converted from '' @ fname f @ '' using Binaryen.'') (Text js) w1 = (r, w')"
    using assms l
    by (auto simp: convertWasmToAsmWithBinaryen_def the_global_def
        split: sum.splits option.splits)
  then show ?thesis
  proof cases
    case stop
    with store gf show ?thesis by (simp add: get_file_def)
  next
    case wrote
    show ?thesis
    proof (cases r)
      case (Inl e)
      with wrote(5) have "w' = w1" by (auto dest: write_output_Inl)
      with Inl store gf show ?thesis by (simp add: get_file_def)
    next
      case (Inr u)
      with wrote(5) obtain d where d: "fparent f = Some d" "d < length (directory_objects w1)"
        "file_objects w' = file_objects w1 @
             [\<lparr>fname = fname f @ ''.asm.js'', ftype = Some FileType_JavaScript,
               fdescription = Some (''Converted from '' @ fname f @ '' using Binaryen.''),
               fdata = Some (Text js), fparent = Some d\<rparr>]"
        "directory_objects w' = (directory_objects w1)
             [d := (directory_objects w1 ! d)
                \<lparr>dchildren := dchildren (directory_objects w1 ! d) @ [length (file_objects w1)]\<rparr>]"
        "globals w' = globals w1"
        using write_output_Inr by blast
      have "get_file w' a = get_file w a"
        using d(3) store wrote(1) gf by (auto simp: get_file_def nth_append split: if_splits)
      moreover have "dchildren (directory_objects w' ! d) =
                 dchildren (directory_objects w ! d) @ [length (file_objects w)]"
        using d(2,4) store by simp
      ultimately show ?thesis
        using Inr d(1,3,5) store wrote(1-4) gf by auto
    qed
  qed
qed

theorem convert_leaves_source_unchanged_witness:
  "convertWasmToAsmWithBinaryen offline 0 project_world
     = (Inr (), project_world\<lparr>file_objects :=
          [\<lparr>fname = ''main.wasm'', ftype = Some ''wasm'', fdescription = None,
             fdata = Some (Binary [0, 97, 115, 109]), fparent = Some 0\<rparr>,
           \<lparr>fname = ''main.wasm.asm.js'', ftype = Some ''javascript'',
             fdescription = Some ''Converted from main.wasm using Binaryen.'',
             fdata = Some (Text ''function asmFunc() {}''), fparent = Some 0\<rparr>],
          directory_objects := [\<lparr>dname = ''out'', dchildren = [0, 1]\<rparr>]\<rparr>) \<and>
   get_file (snd (convertWasmToAsmWithBinaryen offline 0 project_world)) 0
     = get_file project_world 0"
proof -
  have run: "convertWasmToAsmWithBinaryen offline 0 project_world
     = (Inr (), project_world\<lparr>file_objects :=
          [\<lparr>fname = ''main.wasm'', ftype = Some ''wasm'', fdescription = None,
             fdata = Some (Binary [0, 97, 115, 109]), fparent = Some 0\<rparr>,
           \<lparr>fname = ''main.wasm.asm.js'', ftype = Some ''javascript'',
             fdescription = Some ''Converted from main.wasm using Binaryen.'',
             fdata = Some (Text ''function asmFunc() {}''), fparent = Some 0\<rparr>],
          directory_objects := [\<lparr>dname = ''out'', dchildren = [0, 1]\<rparr>]\<rparr>)"
    by (simp add: convertWasmToAsmWithBinaryen_def load_if_undefined_def the_global_def
        get_file_def write_output_def new_output_def newFile_def setData_def
        set_description_def
        project_world_def binaryen_engine_def FileType_JavaScript_def)
  from convert_leaves_source_unchanged [OF run] run show ?thesis
    by simp
qed

section \<open>Properties of the project loader\<close>

lemma fold_addFile: "fold (\<lambda>f d. addFile d f) fs acc = acc @ fs"
  by (induction fs arbitrary: acc) (simp_all add: addFile_def)

lemma deserialize_file:
  "children json = None \<Longrightarrow>
   deserialize E json b =
     (case inline_data (data json) of
        Some s \<Rightarrow> \<lparr>requests = [], settled_at = 0,
                   outcome = Inr (FileNode (name json) (type json) (description json) (Some (Text s)))\<rparr>
      | None \<Rightarrow> \<lparr>requests = [b @ ''/'' @ name json], settled_at = latency E (b @ ''/'' @ name json),
                  outcome = (case fetch E (b @ ''/'' @ name json) of
                               Inl e \<Rightarrow> Inl e
                             | Inr text \<Rightarrow>
                                 Inr (FileNode (name json) (type json) (description json)
                                       (Some (Text text))))\<rparr>)"
  by (subst deserialize.simps) (simp add: Let_def split: option.splits)

lemma deserialize_directory:
  "children json = Some cs \<Longrightarrow>
   deserialize E json b =
     (let p = deserialize_array E cs (b @ ''/'' @ name json)
      in \<lparr>requests = requests p, settled_at = settled_at p,
          outcome = (case outcome p of
                       Inl e \<Rightarrow> Inl e
                     | Inr fs \<Rightarrow> Inr (DirectoryNode (name json) fs))\<rparr>)"
  by (subst deserialize.simps) (simp add: deserialize_array_def fold_addFile Let_def cong: sum.case_cong)

text \<open>
  Claim C5, as stated, fails: a node whose \<^verbatim>\<open>data\<close> is present and is the empty
  string does not get its inline value as content; the content is fetched.
\<close>

theorem deserialize_empty_string_counterexample:
  "children blank_readme = None \<and> data blank_readme = Str [] \<and>
   deserialize readme_server blank_readme ''templates/empty_c''
     = \<lparr>requests = [''templates/empty_c/README.md''], settled_at = 3,
        outcome = Inr (FileNode ''README.md'' (Some ''markdown'') None (Some (Text ''# Title'')))\<rparr>"
  by (simp add: deserialize_file blank_readme_def readme_server_def offline_def)

text \<open>
  Claim C5, amended.  A node without \<^verbatim>\<open>children\<close> becomes a file that carries the
  name, the type and the description of the node.  Its content is the inline
  \<^verbatim>\<open>data\<close> when that is a string that is not empty, with no request sent; the empty
  string when \<^verbatim>\<open>data\<close> is \<^verbatim>\<open>null\<close>, with no request sent; and otherwise (\<^verbatim>\<open>data\<close>
  absent or the empty string) the text of the response to a request for the base path,
  a slash and the name of the node, the file being created only when that request
  succeeds.
\<close>

theorem deserialize_file_content:
  assumes "children json = None"
  shows "(\<forall>s. data json = Str s \<and> s \<noteq> [] \<longrightarrow>
            deserialize E json b =
              \<lparr>requests = [], settled_at = 0,
               outcome = Inr (FileNode (name json) (type json) (description json) (Some (Text s)))\<rparr>) \<and>
         (data json = Null \<longrightarrow>
            deserialize E json b =
              \<lparr>requests = [], settled_at = 0,
               outcome = Inr (FileNode (name json) (type json) (description json) (Some (Text [])))\<rparr>) \<and>
         (data json = Absent \<or> data json = Str [] \<longrightarrow>
            deserialize E json b =
              \<lparr>requests = [b @ ''/'' @ name json], settled_at = latency E (b @ ''/'' @ name json),
               outcome = (case fetch E (b @ ''/'' @ name json) of
                            Inl e \<Rightarrow> Inl e
                          | Inr text \<Rightarrow>
                              Inr (FileNode (name json) (type json) (description json)
                                    (Some (Text text))))\<rparr>)"
proof -
  have "inline_data (Str s) = Some s" if "s \<noteq> []" for s
    using that by (cases s) simp_all
  then show ?thesis
    using assms by (auto simp: deserialize_file)
qed

theorem deserialize_file_content_witness:
  "deserialize readme_server (IFile ''main.c'' None (Some ''c'') (Str ''int x;'') (Some ''source'')) ''templates/empty_c''
     = \<lparr>requests = [], settled_at = 0,
        outcome = Inr (FileNode ''main.c'' (Some ''c'') (Some ''source'') (Some (Text ''int x;'')))\<rparr> \<and>
   deserialize readme_server (IFile ''main.c'' None (Some ''c'') Null None) ''templates/empty_c''
     = \<lparr>requests = [], settled_at = 0,
        outcome = Inr (FileNode ''main.c'' (Some ''c'') None (Some (Text [])))\<rparr> \<and>
   deserialize readme_server (IFile ''main.c'' None (Some ''c'') Absent None) ''templates/empty_c''
     = \<lparr>requests = [''templates/empty_c/main.c''], settled_at = 3,
        outcome = Inr (FileNode ''main.c'' (Some ''c'') None (Some (Text ''# Title'')))\<rparr>"
  using deserialize_file_content
      [of "IFile ''main.c'' None (Some ''c'') (Str ''int x;'') (Some ''source'')" readme_server "''templates/empty_c''"]
    deserialize_file_content
      [of "IFile ''main.c'' None (Some ''c'') Null None" readme_server "''templates/empty_c''"]
    deserialize_file_content
      [of "IFile ''main.c'' None (Some ''c'') Absent None" readme_server "''templates/empty_c''"]
  by (simp add: readme_server_def offline_def)

text \<open>
  Claim C10.  A node without \<^verbatim>\<open>children\<close> whose \<^verbatim>\<open>data\<close> is the empty string is
  deserialized as the same node without \<^verbatim>\<open>data\<close>: one request is sent, for the base
  path, a slash and the name of the node, and the content of the file is the text of
  the response, not the inline value.
\<close>

theorem deserialize_empty_string_is_fetched:
  assumes "children json = None" and "data json = Str []"
  shows "deserialize E json b =
           \<lparr>requests = [b @ ''/'' @ name json], settled_at = latency E (b @ ''/'' @ name json),
            outcome = (case fetch E (b @ ''/'' @ name json) of
                         Inl e \<Rightarrow> Inl e
                       | Inr text \<Rightarrow>
                           Inr (FileNode (name json) (type json) (description json)
                                 (Some (Text text))))\<rparr> \<and>
         deserialize E json b =
           deserialize E (IFile (name json) None (type json) Absent (description json)) b"
  using assms by (simp add: deserialize_file cong: sum.case_cong)

theorem deserialize_empty_string_is_fetched_witness:
  "deserialize readme_server (IFile ''README.md'' None (Some ''markdown'') (Str []) None)
       ''templates/empty_c''
     = \<lparr>requests = [''templates/empty_c/README.md''], settled_at = 3,
        outcome = Inr (FileNode ''README.md'' (Some ''markdown'') None (Some (Text ''# Title'')))\<rparr> \<and>
   deserialize readme_server (IFile ''README.md'' None (Some ''markdown'') (Str []) None)
       ''templates/empty_c''
     = deserialize readme_server (IFile ''README.md'' None (Some ''markdown'') Absent None)
         ''templates/empty_c''"
  using deserialize_empty_string_is_fetched
      [of "IFile ''README.md'' None (Some ''markdown'') (Str []) None" readme_server "''templates/empty_c''"]
  by (simp add: deserialize_file readme_server_def offline_def)

lemma set_completion_order:
  "set (completion_order ps) = {(i, p). i < length ps \<and> p = ps ! i}"
  by (auto simp: completion_order_def in_set_enumerate_eq)

lemma length_completion_order: "length (completion_order ps) = length ps"
  by (simp add: completion_order_def)

lemma fulfilled_map:
  "\<forall>x \<in> set xs. \<exists>v. outcome (snd x) = Inr v \<Longrightarrow>
   concat (map (\<lambda>(i, p). case outcome p of Inl e \<Rightarrow> [] | Inr v \<Rightarrow> [(i, v)]) xs)
     = map (\<lambda>(i, p). (i, projr (outcome p))) xs"
  by (induction xs) auto

lemma rejected_Nil:
  "\<forall>x \<in> set xs. \<exists>v. outcome (snd x) = Inr v \<Longrightarrow>
   concat (map (\<lambda>(i, p). case outcome p of Inl e \<Rightarrow> [(settled_at p, e)] | Inr v \<Rightarrow> []) xs) = []"
  by (induction xs) auto

lemma rejected_Nil_D:
  "concat (map (\<lambda>(i, p). case outcome p of Inl e \<Rightarrow> [(settled_at p, e)] | Inr v \<Rightarrow> []) xs) = []
   \<Longrightarrow> x \<in> set xs \<Longrightarrow> \<exists>v. outcome (snd x) = Inr v"
  by (induction xs) (auto split: sum.splits)

text \<open>A list of indexed values sorted by index is the values in the order of the indices.\<close>

lemma indexed_keys: "fst ` {(i, v). i < n \<and> v = vs ! i} = {0..<n}"
proof (rule set_eqI)
  fix k
  show "k \<in> fst ` {(i, v). i < n \<and> v = vs ! i} \<longleftrightarrow> k \<in> {0..<n}"
  proof
    assume "k \<in> fst ` {(i, v). i < n \<and> v = vs ! i}"
    then obtain x where "x \<in> {(i, v). i < n \<and> v = vs ! i}" and "k = fst x" ..
    then show "k \<in> {0..<n}" by (cases x) simp
  next
    assume "k \<in> {0..<n}"
    then have "(k, vs ! k) \<in> {(i, v). i < n \<and> v = vs ! i}" by simp
    then show "k \<in> fst ` {(i, v). i < n \<and> v = vs ! i}" by (rule rev_image_eqI) simp
  qed
qed

lemma sort_by_index:
  assumes len: "length xs = length vs"
    and xs: "set xs = {(i, v). i < length vs \<and> v = vs ! i}"
  shows "map snd (sort_key fst xs) = vs"
proof -
  let ?s = "sort_key fst xs"
  have keys: "set (map fst ?s) = {0..<length vs}"
    by (simp add: xs indexed_keys)
  have "card (set (map fst ?s)) = length (map fst ?s)"
    by (simp only: keys) (simp add: len)
  then have "distinct (map fst ?s)"
    by (rule card_distinct)
  moreover have "sorted (map fst ?s)"
    by (rule sorted_sort_key)
  moreover have "sorted [0..<length vs]" "distinct [0..<length vs]"
    by simp_all
  moreover have "set (map fst ?s) = set [0..<length vs]"
    by (simp only: keys) simp
  ultimately have fst: "map fst ?s = [0..<length vs]"
    by (intro sorted_distinct_set_unique)
  have "snd x = vs ! fst x" if "x \<in> set ?s" for x
  proof -
    from that have "x \<in> {(i, v). i < length vs \<and> v = vs ! i}"
      by (simp add: xs)
    then show ?thesis by (cases x) simp
  qed
  then have "map snd ?s = map (\<lambda>i. vs ! i) (map fst ?s)"
    by (simp add: comp_def)
  also have "\<dots> = vs"
    by (simp only: fst map_nth)
  finally show ?thesis .
qed

lemma Promise_all_fulfilled:
  assumes "map outcome ps = map Inr vs"
  shows "outcome (Promise_all ps) = Inr vs"
proof -
  have len: "length ps = length vs"
    using assms by (metis length_map)
  have out: "outcome (ps ! i) = Inr (vs ! i)" if "i < length ps" for i
    using assms that len by (metis nth_map)
  have all: "\<forall>x \<in> set (completion_order ps). \<exists>v. outcome (snd x) = Inr v"
    using out by (auto simp: set_completion_order)
  let ?f = "map (\<lambda>(i, p). (i, projr (outcome p))) (completion_order ps)"
  have "length ?f = length vs"
    using len by (simp add: length_completion_order)
  moreover have "set ?f = {(i, v). i < length vs \<and> v = vs ! i}"
    using out len by (auto simp: set_completion_order image_iff)
  ultimately have "map snd (sort_key fst ?f) = vs"
    by (rule sort_by_index)
  then show ?thesis
    using all by (simp add: Promise_all_def Let_def rejected_Nil fulfilled_map)
qed

lemma Promise_all_Inr_D:
  assumes "outcome (Promise_all ps) = Inr vs"
  shows "map outcome ps = map Inr vs"
proof -
  let ?r = "concat (map (\<lambda>(i, p). case outcome p of Inl e \<Rightarrow> [(settled_at p, e)] | Inr v \<Rightarrow> [])
              (completion_order ps))"
  have "?r = []"
    using assms by (auto simp: Promise_all_def Let_def split: list.splits)
  then have "\<exists>v. outcome p = Inr v" if "p \<in> set ps" for p
  proof -
    from that obtain i where "i < length ps" "p = ps ! i"
      by (auto simp: in_set_conv_nth)
    then have "(i, p) \<in> set (completion_order ps)"
      by (simp add: set_completion_order)
    with \<open>?r = []\<close> show ?thesis
      using rejected_Nil_D by fastforce
  qed
  then have "outcome p = Inr (projr (outcome p))" if "p \<in> set ps" for p
    using that by fastforce
  then have "map outcome ps = map Inr (map (\<lambda>p. projr (outcome p)) ps)"
    by simp
  moreover from this have "outcome (Promise_all ps) = Inr (map (\<lambda>p. projr (outcome p)) ps)"
    by (rule Promise_all_fulfilled)
  ultimately show ?thesis
    using assms by simp
qed

lemma deserialize_array_Inr_D:
  assumes "outcome (deserialize_array E cs b) = Inr kids"
  shows "map (\<lambda>x. outcome (deserialize E x b)) cs = map Inr kids"
  using Promise_all_Inr_D [of "map (\<lambda>x. deserialize E x b) cs" kids] assms
  by (simp add: deserialize_array_def comp_def)

lemma deserialize_array_fulfilled:
  assumes "map (\<lambda>x. outcome (deserialize E x b)) cs = map Inr kids"
  shows "outcome (deserialize_array E cs b) = Inr kids"
  using Promise_all_fulfilled [of "map (\<lambda>x. deserialize E x b) cs" kids] assms
  by (simp add: deserialize_array_def comp_def)

lemma deserialize_name:
  assumes "outcome (deserialize E x b) = Inr nd"
  shows "node_name nd = name x"
proof (cases "children x")
  case None
  with assms show ?thesis
    by (auto simp: deserialize_file split: option.splits sum.splits)
next
  case (Some cs)
  with assms show ?thesis
    by (auto simp: deserialize_directory Let_def split: sum.splits)
qed

lemma deserialized_names:
  assumes "map (\<lambda>x. outcome (deserialize E x b)) cs = map Inr kids"
  shows "map node_name kids = map name cs"
proof (rule nth_equalityI)
  show len: "length (map node_name kids) = length (map name cs)"
    using assms by (metis length_map)
  fix i assume "i < length (map node_name kids)"
  with len have i: "i < length cs" "i < length kids" by simp_all
  then have "outcome (deserialize E (cs ! i) b) = Inr (kids ! i)"
    using assms by (metis nth_map)
  then have "node_name (kids ! i) = name (cs ! i)"
    by (rule deserialize_name)
  with i show "map node_name kids ! i = map name cs ! i" by simp
qed

lemma deserialize_latency:
  "outcome (deserialize E json b) = Inr nd \<Longrightarrow>
   outcome (deserialize (E\<lparr>latency := l\<rparr>) json b) = Inr nd"
proof (induction E json b arbitrary: nd rule: deserialize.induct)
  case (1 E json b)
  show ?case
  proof (cases "children json")
    case None
    with "1.prems" show ?thesis
      by (simp add: deserialize_file split: option.splits)
  next
    case (Some cs)
    let ?b = "b @ ''/'' @ name json"
    from "1.prems" Some obtain kids where kids: "outcome (deserialize_array E cs ?b) = Inr kids"
      and nd: "nd = DirectoryNode (name json) kids"
      by (auto simp: deserialize_directory Let_def split: sum.splits)
    from kids have each: "map (\<lambda>x. outcome (deserialize E x ?b)) cs = map Inr kids"
      by (rule deserialize_array_Inr_D)
    have "map (\<lambda>x. outcome (deserialize (E\<lparr>latency := l\<rparr>) x ?b)) cs = map Inr kids"
    proof (rule nth_equalityI)
      show "length (map (\<lambda>x. outcome (deserialize (E\<lparr>latency := l\<rparr>) x ?b)) cs) = length (map Inr kids)"
        using each by (metis length_map)
      fix i assume "i < length (map (\<lambda>x. outcome (deserialize (E\<lparr>latency := l\<rparr>) x ?b)) cs)"
      then have i: "i < length cs" by simp
      then have mem: "cs ! i \<in> set cs" by simp
      from i have "outcome (deserialize E (cs ! i) ?b) = Inr (kids ! i)"
        using each by (metis length_map nth_map)
      then have "outcome (deserialize (E\<lparr>latency := l\<rparr>) (cs ! i) ?b) = Inr (kids ! i)"
        by (rule "1.IH" [OF Some mem])
      with i each show "map (\<lambda>x. outcome (deserialize (E\<lparr>latency := l\<rparr>) x ?b)) cs ! i = map Inr kids ! i"
        by (metis length_map nth_map)
    qed
    then have "outcome (deserialize_array (E\<lparr>latency := l\<rparr>) cs ?b) = Inr kids"
      by (rule deserialize_array_fulfilled)
    with Some nd show ?thesis
      by (simp add: deserialize_directory Let_def)
  qed
qed

text \<open>
  Claim C6.  When a directory node is deserialized, the children of the directory are
  the deserialized children of the node, one for one and in the order of the input
  array; so are the files added to the project by \<^verbatim>\<open>loadProject\<close>, after the files
  the project already had.  The times at which the responses arrive have no part in
  it: with any other latencies the same tree is built.
\<close>

theorem children_keep_input_order:
  "(children json = Some cs \<and> outcome (deserialize E json b) = Inr nd \<longrightarrow>
      (\<exists>kids. nd = DirectoryNode (name json) kids \<and>
         map (\<lambda>x. outcome (deserialize E x (b @ ''/'' @ name json))) cs = map Inr kids \<and>
         map node_name kids = map name cs)) \<and>
   (outcome (fst (loadProject E pj project)) = Inr r \<longrightarrow>
      (\<exists>kids. pfiles (snd (loadProject E pj project)) = pfiles project @ kids \<and>
         map (\<lambda>x. outcome (deserialize E x (''templates/'' @ project_directory pj)))
           (project_children pj) = map Inr kids \<and>
         map node_name kids = map name (project_children pj))) \<and>
   (outcome (deserialize E json b) = Inr nd \<longrightarrow>
      (\<forall>l. outcome (deserialize (E\<lparr>latency := l\<rparr>) json b) = Inr nd))"
proof -
  have dir: "\<exists>kids. nd = DirectoryNode (name json) kids \<and>
         map (\<lambda>x. outcome (deserialize E x (b @ ''/'' @ name json))) cs = map Inr kids \<and>
         map node_name kids = map name cs"
    if "children json = Some cs" and "outcome (deserialize E json b) = Inr nd"
  proof -
    from that obtain kids where kids: "outcome (deserialize_array E cs (b @ ''/'' @ name json)) = Inr kids"
      and nd: "nd = DirectoryNode (name json) kids"
      by (auto simp: deserialize_directory Let_def split: sum.splits)
    from kids have "map (\<lambda>x. outcome (deserialize E x (b @ ''/'' @ name json))) cs = map Inr kids"
      by (rule deserialize_array_Inr_D)
    with nd show ?thesis
      using deserialized_names by blast
  qed
  have proj: "\<exists>kids. pfiles (snd (loadProject E pj project)) = pfiles project @ kids \<and>
         map (\<lambda>x. outcome (deserialize E x (''templates/'' @ project_directory pj)))
           (project_children pj) = map Inr kids \<and>
         map node_name kids = map name (project_children pj)"
    if "outcome (fst (loadProject E pj project)) = Inr r"
  proof -
    from that obtain kids where
      kids: "outcome (deserialize_array E (project_children pj) (''templates/'' @ project_directory pj)) = Inr kids"
      and p: "pfiles (snd (loadProject E pj project)) = pfiles project @ kids"
      by (auto simp: loadProject_def Let_def fold_addFile split: sum.splits)
    from kids have "map (\<lambda>x. outcome (deserialize E x (''templates/'' @ project_directory pj)))
           (project_children pj) = map Inr kids"
      by (rule deserialize_array_Inr_D)
    with p show ?thesis
      using deserialized_names by blast
  qed
  from dir proj deserialize_latency show ?thesis
    by blast
qed

lemma src_run: 
  "deserialize slow_server src_directory ''templates/hello''
     = \<lparr>requests = [''templates/hello/src/a.c'', ''templates/hello/src/b.c''],
        settled_at = 9,
        outcome = Inr (DirectoryNode ''src''
          [FileNode ''a.c'' (Some ''c'') None (Some (Text ''// templates/hello/src/a.c'')),
           FileNode ''b.c'' (Some ''c'') None (Some (Text ''// templates/hello/src/b.c'')),
           DirectoryNode ''lib'' []])\<rparr>"
    by (simp add: src_directory_def deserialize_directory deserialize_file deserialize_array_def
        Promise_all_def completion_order_def slow_server_def offline_def)

theorem children_keep_input_order_witness:
  "map settled_at (map (\<lambda>x. deserialize slow_server x ''templates/hello/src'')
       [IFile ''a.c'' None (Some ''c'') Absent None, IFile ''b.c'' None (Some ''c'') Absent None])
     = [9, 2] \<and>
   (\<exists>kids. outcome (deserialize slow_server src_directory ''templates/hello'')
             = Inr (DirectoryNode ''src'' kids) \<and>
           map node_name kids = [''a.c'', ''b.c'', ''lib'']) \<and>
   map node_name (pfiles (snd (loadProject slow_server hello_project \<lparr>pname = [], pfiles = []\<rparr>)))
     = [''a.txt'', ''src'', ''b'']"
proof -
  have times: "map settled_at (map (\<lambda>x. deserialize slow_server x ''templates/hello/src'')
       [IFile ''a.c'' None (Some ''c'') Absent None, IFile ''b.c'' None (Some ''c'') Absent None])
     = [9, 2]"
    by (simp add: deserialize_file slow_server_def offline_def)
  have p: "outcome (fst (loadProject slow_server hello_project \<lparr>pname = [], pfiles = []\<rparr>))
      = Inr hello_project"
    by (simp add: loadProject_def hello_project_def src_run deserialize_directory deserialize_file
        deserialize_array_def Promise_all_def completion_order_def)
  have c: "children src_directory = Some [IFile ''a.c'' None (Some ''c'') Absent None,
            IFile ''b.c'' None (Some ''c'') Absent None,
            IFile ''lib'' (Some []) None Absent None]"
    by (simp add: src_directory_def)
  have n: "name src_directory = ''src''"
    by (simp add: src_directory_def)
  from children_keep_input_order
    [of src_directory "[IFile ''a.c'' None (Some ''c'') Absent None,
            IFile ''b.c'' None (Some ''c'') Absent None,
            IFile ''lib'' (Some []) None Absent None]" slow_server "''templates/hello''" _
        hello_project "\<lparr>pname = [], pfiles = []\<rparr>" hello_project]
    src_run p c n times
  show ?thesis
    by (auto simp: hello_project_def src_directory_def)
qed

end
